theory Spec2Isabelle
  imports Complex_Main "HOL-Library.Product_Lexorder"
begin

section \<open>Cells, dates and the pandas primitives the pipeline uses\<close>

text \<open>
  A floating-point cell of a table is either a number or NaN, which pandas also uses for a
  missing cell. Numbers are idealised as reals: rounding and the infinities are not
  modelled. The three monetary columns of the ledger are such cells: an empty cell of the
  file that was read is NaN.
  A date is the number of days since 1970-01-01 (a Thursday), so that adding one calendar
  day adds 1.
\<close>

datatype fval = NaN | Num real

datatype py_error = KeyError | ValueError

fun isnan :: "fval \<Rightarrow> bool" where
  "isnan NaN = True"
| "isnan (Num x) = False"

fun fadd :: "fval \<Rightarrow> fval \<Rightarrow> fval" where
  "fadd (Num x) (Num y) = Num (x + y)"
| "fadd a b = NaN"

fun fsub :: "fval \<Rightarrow> fval \<Rightarrow> fval" where
  "fsub (Num x) (Num y) = Num (x - y)"
| "fsub a b = NaN"

fun fmul :: "fval \<Rightarrow> fval \<Rightarrow> fval" where
  "fmul (Num x) (Num y) = Num (x * y)"
| "fmul a b = NaN"

text \<open>
  Division is only ever evaluated with a positive denominator (the callers guard it), so
  the quotient by zero, an infinity in numpy, is outside this model.
\<close>

fun fdiv :: "fval \<Rightarrow> fval \<Rightarrow> fval" where
  "fdiv (Num x) (Num y) = (if y = 0 then NaN else Num (x / y))"
| "fdiv a b = NaN"

fun fabs :: "fval \<Rightarrow> fval" where
  "fabs (Num x) = Num \<bar>x\<bar>"
| "fabs NaN = NaN"

text \<open>Every comparison with NaN is false.\<close>

fun flt :: "fval \<Rightarrow> fval \<Rightarrow> bool" where
  "flt (Num x) (Num y) = (x < y)"
| "flt a b = False"

fun fle :: "fval \<Rightarrow> fval \<Rightarrow> bool" where
  "fle (Num x) (Num y) = (x \<le> y)"
| "fle a b = False"

definition fgt :: "fval \<Rightarrow> fval \<Rightarrow> bool" where
  "fgt a b = flt b a"

text \<open>Python's \<open>max(a, b)\<close> keeps \<open>a\<close> unless \<open>b > a\<close>.\<close>

definition pymax :: "fval \<Rightarrow> fval \<Rightarrow> fval" where
  "pymax a b = (if fgt b a then b else a)"

definition fillna :: "real \<Rightarrow> fval \<Rightarrow> fval" where
  "fillna v x = (case x of NaN \<Rightarrow> Num v | Num y \<Rightarrow> Num y)"

text \<open>
  The reductions of a series skip its NaN cells: they work on the numbers that
  \<open>dropna\<close> leaves.
\<close>

fun dropna :: "fval list \<Rightarrow> real list" where
  "dropna [] = []"
| "dropna (NaN # vs) = dropna vs"
| "dropna (Num x # vs) = x # dropna vs"

text \<open>\<open>Series.mean\<close>: NaN when the series has no number.\<close>

definition mean :: "real list \<Rightarrow> fval" where
  "mean xs = (if xs = [] then NaN else Num (sum_list xs / real (length xs)))"

text \<open>\<open>Series.std\<close>: the sample standard deviation (ddof = 1), NaN below two numbers.\<close>

definition std :: "real list \<Rightarrow> fval" where
  "std xs =
     (if length xs < 2 then NaN
      else let m = sum_list xs / real (length xs)
           in Num (sqrt (sum_list (map (\<lambda>x. (x - m)\<^sup>2) xs) / real (length xs - 1))))"

text \<open>\<open>Series.quantile\<close> with pandas' default linear interpolation.\<close>

definition quantile :: "real list \<Rightarrow> real \<Rightarrow> py_error + fval" where
  "quantile xs q =
     (if q < 0 \<or> 1 < q then Inl ValueError
      else if xs = [] then Inr NaN
      else let s = sort xs;
               pos = real (length xs - 1) * q;
               lo = nat \<lfloor>pos\<rfloor>;
               hi = nat \<lceil>pos\<rceil>
           in Inr (Num (s ! lo + (s ! hi - s ! lo) * (pos - real lo))))"

text \<open>The sum of a group (\<open>groupby(...).sum()\<close>) skips NaN cells.\<close>

definition nansum :: "fval list \<Rightarrow> fval" where
  "nansum vs = Num (sum_list (map (\<lambda>v. case v of NaN \<Rightarrow> 0 | Num x \<Rightarrow> x) vs))"

text \<open>\<open>groupby\<close> visits the distinct keys in ascending order.\<close>

definition groupby_keys :: "('r \<Rightarrow> 'k::linorder) \<Rightarrow> 'r list \<Rightarrow> 'k list" where
  "groupby_keys key rows = sort (remdups (map key rows))"

definition get_group :: "('r \<Rightarrow> 'k) \<Rightarrow> 'r list \<Rightarrow> 'k \<Rightarrow> 'r list" where
  "get_group key rows k = filter (\<lambda>r. key r = k) rows"

definition tail :: "nat \<Rightarrow> 'a list \<Rightarrow> 'a list" where
  "tail n xs = drop (length xs - n) xs"

definition dayofweek :: "int \<Rightarrow> int" where
  "dayofweek d = (d + 3) mod 7"

definition date_range :: "int \<Rightarrow> nat \<Rightarrow> int list" where
  "date_range start periods = map (\<lambda>i. start + int i) [0..<periods]"

text \<open>
  The value column that a left merge on the key adds to one left row: one cell per
  matching right row, in the right table's order, or a single NaN without a match.
\<close>

definition merge_left :: "('r \<Rightarrow> 'k) \<Rightarrow> ('r \<Rightarrow> fval) \<Rightarrow> 'r list \<Rightarrow> 'k \<Rightarrow> fval list" where
  "merge_left key col right k =
     (case map col (filter (\<lambda>r. key r = k) right) of [] \<Rightarrow> [NaN] | v # vs \<Rightarrow> v # vs)"

text \<open>\<open>np.select\<close> with two conditions: the first that holds decides.\<close>

definition np_select2 :: "bool \<Rightarrow> bool \<Rightarrow> 'c \<Rightarrow> 'c \<Rightarrow> 'c \<Rightarrow> 'c" where
  "np_select2 c1 c2 v1 v2 dflt = (if c1 then v1 else if c2 then v2 else dflt)"

section \<open>Baseline forecasting\<close>

record 'a cashflow_record =
  Date :: int
  Account_ID :: 'a
  Inflow_INR :: fval
  Outflow_INR :: fval
  Balance_INR :: fval

record 'a forecast =
  fc_Date :: int
  fc_Account_ID :: 'a
  Predicted_Inflow :: fval
  Predicted_Outflow :: fval
  Model :: string

record bank_forecast =
  bf_Date :: int
  bf_Predicted_Inflow :: fval
  bf_Predicted_Outflow :: fval
  bf_Model :: string

text \<open>
  \<open>dow_profile[col].get(dow, ...)\<close>: the day-of-week mean of a column, present only for
  a weekday that occurs in the account's history (and NaN when none of that weekday's
  cells is a number).
\<close>

definition dow_profile ::
  "('a cashflow_record \<Rightarrow> fval) \<Rightarrow> 'a cashflow_record list \<Rightarrow> int \<Rightarrow> fval option" where
  "dow_profile col g dow =
     (case map col (filter (\<lambda>r. dayofweek (Date r) = dow) g) of
        [] \<Rightarrow> None
      | v # vs \<Rightarrow> Some (mean (dropna (v # vs))))"

text \<open>The body of the loop over the future dates of one account.\<close>

definition forecast_row ::
  "'a \<Rightarrow> 'a cashflow_record list \<Rightarrow> nat \<Rightarrow> real \<Rightarrow> int \<Rightarrow> 'a forecast" where
  "forecast_row acc g rolling_window alpha d =
     (let roll_in = mean (dropna (tail rolling_window (map Inflow_INR g)));
          roll_out = mean (dropna (tail rolling_window (map Outflow_INR g)));
          dow = dayofweek d;
          dow_in = (case dow_profile Inflow_INR g dow of None \<Rightarrow> roll_in | Some v \<Rightarrow> v);
          dow_out = (case dow_profile Outflow_INR g dow of None \<Rightarrow> roll_out | Some v \<Rightarrow> v);
          pred_in = fadd (fmul (Num alpha) roll_in) (fmul (Num (1 - alpha)) dow_in);
          pred_out = fadd (fmul (Num alpha) roll_out) (fmul (Num (1 - alpha)) dow_out)
      in \<lparr>fc_Date = d, fc_Account_ID = acc,
          Predicted_Inflow = pymax pred_in (Num 0),
          Predicted_Outflow = pymax pred_out (Num 0),
          Model = ''BASELINE''\<rparr>)"

text \<open>The body of the loop over the accounts: one group, its last date, its future dates.\<close>

definition forecast_account ::
  "'a cashflow_record list \<Rightarrow> nat \<Rightarrow> nat \<Rightarrow> real \<Rightarrow> 'a \<Rightarrow> 'a forecast list" where
  "forecast_account df horizon rolling_window alpha acc =
     (let g = sort_key Date (get_group Account_ID df acc);
          last_date = Max (set (map Date g));
          future_dates = date_range (last_date + 1) horizon
      in map (forecast_row acc g rolling_window alpha) future_dates)"

text \<open>The list \<open>forecasts\<close> that the account loop builds.\<close>

definition account_forecasts ::
  "('a::linorder) cashflow_record list \<Rightarrow> nat \<Rightarrow> nat \<Rightarrow> real \<Rightarrow> 'a forecast list" where
  "account_forecasts df0 horizon rolling_window alpha =
     (let df = sort_key (\<lambda>r. (Account_ID r, Date r)) df0
      in concat (map (forecast_account df horizon rolling_window alpha)
                     (groupby_keys Account_ID df)))"

definition bank_level_forecast :: "'a forecast list \<Rightarrow> bank_forecast list" where
  "bank_level_forecast account_forecast =
     map (\<lambda>d. let g = get_group fc_Date account_forecast d
              in \<lparr>bf_Date = d,
                  bf_Predicted_Inflow = nansum (map Predicted_Inflow g),
                  bf_Predicted_Outflow = nansum (map Predicted_Outflow g),
                  bf_Model = ''BASELINE_BANK''\<rparr>)
         (groupby_keys fc_Date account_forecast)"

text \<open>
  A frame built from an empty list of rows has no columns, so grouping it by \<open>Date\<close>
  raises KeyError.
\<close>

definition run_baseline_forecasting ::
  "('a::linorder) cashflow_record list \<Rightarrow> nat \<Rightarrow> nat \<Rightarrow> real
     \<Rightarrow> py_error + ('a forecast list \<times> bank_forecast list)" where
  "run_baseline_forecasting df horizon rolling_window alpha =
     (let account_forecast = account_forecasts df horizon rolling_window alpha
      in if account_forecast = [] then Inl KeyError
         else Inr (account_forecast, bank_level_forecast account_forecast))"

text \<open>The defaults of the signature, and the call the dashboard makes.\<close>

definition horizon_default :: nat where
  "horizon_default = 14"

definition rolling_window_default :: nat where
  "rolling_window_default = 14"

definition alpha_default :: real where
  "alpha_default = 0.7"

definition run_baseline_forecasting_default ::
  "('a::linorder) cashflow_record list \<Rightarrow> py_error + ('a forecast list \<times> bank_forecast list)" where
  "run_baseline_forecasting_default df =
     run_baseline_forecasting df horizon_default rolling_window_default alpha_default"

definition app_forecast ::
  "('a::linorder) cashflow_record list \<Rightarrow> py_error + ('a forecast list \<times> bank_forecast list)" where
  "app_forecast df = run_baseline_forecasting df 60 rolling_window_default alpha_default"

section \<open>Behavior intelligence\<close>

record 'a account_metrics =
  am_Account_ID :: 'a
  Avg_Inflow :: fval
  Avg_Outflow :: fval
  Net_Flow :: fval
  Outflow_Volatility :: fval
  Outflow_CV :: fval
  Stability_Score :: fval

record 'a structural_cash =
  sc_Account_ID :: 'a
  Structural_Inflow :: fval
  Volatile_Inflow :: fval
  Structural_Ratio :: fval

definition metrics_row :: "'a \<Rightarrow> 'a cashflow_record list \<Rightarrow> 'a account_metrics" where
  "metrics_row acc g =
     (let avg_in = mean (dropna (map Inflow_INR g));
          avg_out = mean (dropna (map Outflow_INR g));
          std_in = std (dropna (map Inflow_INR g));
          std_out = std (dropna (map Outflow_INR g));
          cv_in = (if fgt avg_in (Num 0) then fdiv std_in avg_in else NaN);
          cv_out = (if fgt avg_out (Num 0) then fdiv std_out avg_out else NaN);
          stability_score =
            (if \<not> isnan cv_out then fdiv (Num 1) (fadd (Num 1) cv_out) else Num 0)
      in \<lparr>am_Account_ID = acc, Avg_Inflow = avg_in, Avg_Outflow = avg_out,
          Net_Flow = fsub avg_in avg_out, Outflow_Volatility = std_out,
          Outflow_CV = cv_out, Stability_Score = stability_score\<rparr>)"

definition account_behavior_metrics ::
  "('a::linorder) cashflow_record list \<Rightarrow> 'a account_metrics list" where
  "account_behavior_metrics df =
     map (\<lambda>acc. metrics_row acc (get_group Account_ID df acc)) (groupby_keys Account_ID df)"

definition structural_row ::
  "real \<Rightarrow> 'a \<Rightarrow> 'a cashflow_record list \<Rightarrow> py_error + 'a structural_cash" where
  "structural_row q acc g =
     (case quantile (dropna (map Inflow_INR g)) q of
        Inl e \<Rightarrow> Inl e
      | Inr structural_inflow \<Rightarrow>
          (let mean_inflow = mean (dropna (map Inflow_INR g));
               volatile_part = pymax (fsub mean_inflow structural_inflow) (Num 0)
           in Inr \<lparr>sc_Account_ID = acc, Structural_Inflow = structural_inflow,
                   Volatile_Inflow = volatile_part,
                   Structural_Ratio =
                     (if fgt mean_inflow (Num 0) then fdiv structural_inflow mean_inflow
                      else Num 0)\<rparr>))"

text \<open>A loop that appends one row per step stops at the first step that raises.\<close>

fun collect_rows :: "('e + 'b) list \<Rightarrow> 'e + 'b list" where
  "collect_rows [] = Inr []"
| "collect_rows (x # xs) =
     (case x of
        Inl e \<Rightarrow> Inl e
      | Inr r \<Rightarrow> (case collect_rows xs of Inl e \<Rightarrow> Inl e | Inr rs \<Rightarrow> Inr (r # rs)))"

definition structural_cash_estimation ::
  "('a::linorder) cashflow_record list \<Rightarrow> real \<Rightarrow> py_error + 'a structural_cash list" where
  "structural_cash_estimation df q =
     collect_rows (map (\<lambda>acc. structural_row q acc (get_group Account_ID df acc))
                       (groupby_keys Account_ID df))"

definition quantile_default :: real where
  "quantile_default = 0.25"

definition structural_cash_estimation_default ::
  "('a::linorder) cashflow_record list \<Rightarrow> py_error + 'a structural_cash list" where
  "structural_cash_estimation_default df = structural_cash_estimation df quantile_default"

section \<open>Cash requirement and funding gap engine\<close>

record 'a balance =
  bl_Account_ID :: 'a
  bl_Balance_INR :: fval

record 'a requirement =
  rq_Date :: int
  rq_Account_ID :: 'a
  rq_Predicted_Inflow :: fval
  rq_Predicted_Outflow :: fval
  rq_Model :: string
  rq_Outflow_Volatility :: fval
  rq_Structural_Inflow :: fval
  rq_Balance_INR :: fval
  Safety_Buffer :: fval
  Stress_Buffer :: fval
  Reliable_Inflow :: fval
  Required_Cash :: fval
  Funding_Gap :: fval
  Idle_Cash :: fval
  Action :: string

record bank_requirement =
  br_Date :: int
  br_Predicted_Inflow :: fval
  br_Predicted_Outflow :: fval
  br_Required_Cash :: fval
  br_Funding_Gap :: fval
  br_Idle_Cash :: fval
  br_Action :: string

text \<open>The three left merges on \<open>Account_ID\<close>, one after the other.\<close>

definition merge_inputs ::
  "'a forecast list \<Rightarrow> 'a account_metrics list \<Rightarrow> 'a structural_cash list \<Rightarrow> 'a balance list
     \<Rightarrow> ('a forecast \<times> fval \<times> fval \<times> fval) list" where
  "merge_inputs account_forecasts_in metrics structural balances =
     (let df1 = concat (map (\<lambda>f. map (\<lambda>v. (f, v))
                   (merge_left am_Account_ID Outflow_Volatility metrics (fc_Account_ID f)))
                 account_forecasts_in);
          df2 = concat (map (\<lambda>(f, v). map (\<lambda>s. (f, v, s))
                   (merge_left sc_Account_ID Structural_Inflow structural (fc_Account_ID f)))
                 df1);
          df3 = concat (map (\<lambda>(f, v, s). map (\<lambda>b. (f, v, s, b))
                   (merge_left bl_Account_ID bl_Balance_INR balances (fc_Account_ID f)))
                 df2)
      in df3)"

text \<open>Everything the engine computes on one merged row, from the fill to the action.\<close>

definition requirement_row ::
  "real \<Rightarrow> real \<Rightarrow> ('a forecast \<times> fval \<times> fval \<times> fval) \<Rightarrow> 'a requirement" where
  "requirement_row stress_pct confidence_factor row =
     (case row of (f, v, s, b) \<Rightarrow>
        (let outflow_volatility = fillna 0 v;
             structural_inflow = fillna 0 s;
             balance_inr = fillna 0 b;
             safety_buffer = fmul outflow_volatility (Num confidence_factor);
             stress_buffer = fmul (Predicted_Outflow f) (Num stress_pct);
             reliable_inflow = structural_inflow;
             required_cash =
               fsub (fadd (fadd (Predicted_Outflow f) safety_buffer) stress_buffer)
                    reliable_inflow;
             funding_gap = fsub required_cash balance_inr;
             idle_cash = (if flt funding_gap (Num 0) then fabs funding_gap else Num 0);
             action = np_select2 (fgt funding_gap (Num 0)) (fle funding_gap (Num 0))
                        ''RAISE_FUNDS'' ''INVEST_SURPLUS'' ''MONITOR''
         in \<lparr>rq_Date = fc_Date f, rq_Account_ID = fc_Account_ID f,
             rq_Predicted_Inflow = Predicted_Inflow f,
             rq_Predicted_Outflow = Predicted_Outflow f,
             rq_Model = Model f,
             rq_Outflow_Volatility = outflow_volatility,
             rq_Structural_Inflow = structural_inflow,
             rq_Balance_INR = balance_inr,
             Safety_Buffer = safety_buffer, Stress_Buffer = stress_buffer,
             Reliable_Inflow = reliable_inflow, Required_Cash = required_cash,
             Funding_Gap = funding_gap, Idle_Cash = idle_cash, Action = action\<rparr>))"

definition bank_requirement_row :: "'a requirement list \<Rightarrow> int \<Rightarrow> bank_requirement" where
  "bank_requirement_row df d =
     (let g = get_group rq_Date df d;
          gap = nansum (map Funding_Gap g)
      in \<lparr>br_Date = d,
          br_Predicted_Inflow = nansum (map rq_Predicted_Inflow g),
          br_Predicted_Outflow = nansum (map rq_Predicted_Outflow g),
          br_Required_Cash = nansum (map Required_Cash g),
          br_Funding_Gap = gap,
          br_Idle_Cash = nansum (map Idle_Cash g),
          br_Action = np_select2 (fgt gap (Num 0)) (fle gap (Num 0))
                        ''BANK_FUNDING_REQUIRED'' ''BANK_HAS_EXCESS_LIQUIDITY''
                        ''BANK_MONITOR''\<rparr>)"

definition run_cash_requirement_engine ::
  "'a forecast list \<Rightarrow> 'a account_metrics list \<Rightarrow> 'a structural_cash list \<Rightarrow> 'a balance list
     \<Rightarrow> real \<Rightarrow> real \<Rightarrow> 'a requirement list \<times> bank_requirement list" where
  "run_cash_requirement_engine account_forecasts_in metrics structural balances
       stress_pct confidence_factor =
     (let df = map (requirement_row stress_pct confidence_factor)
                   (merge_inputs account_forecasts_in metrics structural balances)
      in (df, map (bank_requirement_row df) (groupby_keys rq_Date df)))"




definition stress_pct_default :: real where
  "stress_pct_default = 0.15"

definition confidence_factor_default :: real where
  "confidence_factor_default = 1.65"

definition run_cash_requirement_engine_default ::
  "'a forecast list \<Rightarrow> 'a account_metrics list \<Rightarrow> 'a structural_cash list
     \<Rightarrow> 'a balance list \<Rightarrow> 'a requirement list \<times> bank_requirement list" where
  "run_cash_requirement_engine_default account_forecasts_in metrics structural balances =
     run_cash_requirement_engine account_forecasts_in metrics structural balances
       stress_pct_default confidence_factor_default"

section \<open>The exact sum of the specification\<close>

text \<open>
  The specification's exact sum of a column adds all its cells, so it is NaN as soon as
  one cell is NaN; \<open>nansum\<close> above is what \<open>groupby(...).sum()\<close> computes.
\<close>

definition exact_sum :: "fval list \<Rightarrow> fval" where
  "exact_sum vs = foldr fadd vs (Num 0)"

section \<open>Concrete inputs\<close>

definition example_forecast :: "fval \<Rightarrow> nat forecast" where
  "example_forecast pred_out =
     \<lparr>fc_Date = 0, fc_Account_ID = 7, Predicted_Inflow = Num 50,
      Predicted_Outflow = pred_out, Model = ''BASELINE''\<rparr>"

definition single_row_ledger :: "nat cashflow_record list" where
  "single_row_ledger =
     [\<lparr>Date = 0, Account_ID = 7, Inflow_INR = Num 1000, Outflow_INR = Num 800, Balance_INR = Num 5000\<rparr>]"

definition two_account_ledger :: "nat cashflow_record list" where
  "two_account_ledger =
     [\<lparr>Date = 0, Account_ID = 1, Inflow_INR = Num 1000, Outflow_INR = Num 600, Balance_INR = Num 5000\<rparr>,
      \<lparr>Date = 0, Account_ID = 2, Inflow_INR = Num 0, Outflow_INR = Num 0, Balance_INR = Num 100\<rparr>,
      \<lparr>Date = 1, Account_ID = 1, Inflow_INR = Num 1200, Outflow_INR = Num 1000, Balance_INR = Num 5200\<rparr>,
      \<lparr>Date = 1, Account_ID = 2, Inflow_INR = Num 0, Outflow_INR = Num 0, Balance_INR = Num 100\<rparr>]"


definition two_forecasts :: "nat forecast list" where
  "two_forecasts =
     [\<lparr>fc_Date = 5, fc_Account_ID = 1, Predicted_Inflow = Num 10,
       Predicted_Outflow = Num 100, Model = ''BASELINE''\<rparr>,
      \<lparr>fc_Date = 5, fc_Account_ID = 2, Predicted_Inflow = Num 20,
       Predicted_Outflow = Num 200, Model = ''BASELINE''\<rparr>,
      \<lparr>fc_Date = 7, fc_Account_ID = 1, Predicted_Inflow = Num 30,
       Predicted_Outflow = Num 40, Model = ''BASELINE''\<rparr>]"

definition negative_ledger :: "nat cashflow_record list" where
  "negative_ledger =
     [\<lparr>Date = 0, Account_ID = 7, Inflow_INR = Num (- 100), Outflow_INR = Num (- 50), Balance_INR = Num 0\<rparr>]"

text \<open>
  One account with fourteen identical daily rows, and the table of its balance.
\<close>

definition scenario_ledger :: "nat cashflow_record list" where
  "scenario_ledger =
     map (\<lambda>i. \<lparr>Date = int i, Account_ID = 1, Inflow_INR = Num 1000, Outflow_INR = Num 800,
                Balance_INR = Num 5000\<rparr>) [0..<14]"

definition scenario_balances :: "nat balance list" where
  "scenario_balances = [\<lparr>bl_Account_ID = 1, bl_Balance_INR = Num 5000\<rparr>]"

text \<open>A ledger as read from a file with an empty outflow cell.\<close>

definition missing_cell_ledger :: "nat cashflow_record list" where
  "missing_cell_ledger =
     [\<lparr>Date = 0, Account_ID = 7, Inflow_INR = Num 1000, Outflow_INR = NaN,
       Balance_INR = Num 5000\<rparr>]"

text \<open>Tables for the engine that know account 1 only.\<close>

definition example_metrics :: "nat account_metrics list" where
  "example_metrics =
     [\<lparr>am_Account_ID = 1, Avg_Inflow = Num 50, Avg_Outflow = Num 40, Net_Flow = Num 10,
       Outflow_Volatility = Num 10, Outflow_CV = Num 0.25, Stability_Score = Num 0.8\<rparr>]"

definition example_structural :: "nat structural_cash list" where
  "example_structural =
     [\<lparr>sc_Account_ID = 1, Structural_Inflow = Num 40, Volatile_Inflow = Num 10,
       Structural_Ratio = Num 0.8\<rparr>]"

definition example_balances :: "nat balance list" where
  "example_balances = [\<lparr>bl_Account_ID = 1, bl_Balance_INR = Num 30\<rparr>]"
section \<open>The engine, row by row\<close>

lemma engine_rows:
  "fst (run_cash_requirement_engine fcs ms ss bs s z) =
     map (requirement_row s z) (merge_inputs fcs ms ss bs)"
  by (simp add: run_cash_requirement_engine_def Let_def)

lemma engine_bank_rows:
  "snd (run_cash_requirement_engine fcs ms ss bs s z) =
     map (bank_requirement_row (fst (run_cash_requirement_engine fcs ms ss bs s z)))
         (groupby_keys rq_Date (fst (run_cash_requirement_engine fcs ms ss bs s z)))"
  by (simp add: run_cash_requirement_engine_def Let_def)

lemma fillna_Num: "\<exists>x. fillna v c = Num x"
  by (cases c) (simp_all add: fillna_def)

lemma requirement_row_formulas:
  "Safety_Buffer (requirement_row s z row) =
     fmul (rq_Outflow_Volatility (requirement_row s z row)) (Num z)"
  "Stress_Buffer (requirement_row s z row) =
     fmul (rq_Predicted_Outflow (requirement_row s z row)) (Num s)"
  "Reliable_Inflow (requirement_row s z row) = rq_Structural_Inflow (requirement_row s z row)"
  "Required_Cash (requirement_row s z row) =
     fsub (fadd (fadd (rq_Predicted_Outflow (requirement_row s z row))
                      (Safety_Buffer (requirement_row s z row)))
                (Stress_Buffer (requirement_row s z row)))
          (Reliable_Inflow (requirement_row s z row))"
  "Funding_Gap (requirement_row s z row) =
     fsub (Required_Cash (requirement_row s z row)) (rq_Balance_INR (requirement_row s z row))"
  by (simp_all add: requirement_row_def Let_def split: prod.splits)

lemma requirement_row_fills:
  "rq_Outflow_Volatility (requirement_row s z (f, NaN, st, b)) = Num 0"
  "Safety_Buffer (requirement_row s z (f, NaN, st, b)) = Num 0"
  "rq_Structural_Inflow (requirement_row s z (f, v, NaN, b)) = Num 0"
  "Reliable_Inflow (requirement_row s z (f, v, NaN, b)) = Num 0"
  "rq_Balance_INR (requirement_row s z (f, v, st, NaN)) = Num 0"
  by (simp_all add: requirement_row_def Let_def fillna_def)

lemma requirement_row_forecast:
  "rq_Date (requirement_row s z (f, v, st, b)) = fc_Date f"
  "rq_Account_ID (requirement_row s z (f, v, st, b)) = fc_Account_ID f"
  "rq_Predicted_Inflow (requirement_row s z (f, v, st, b)) = Predicted_Inflow f"
  "rq_Predicted_Outflow (requirement_row s z (f, v, st, b)) = Predicted_Outflow f"
  by (simp_all add: requirement_row_def Let_def)

lemma gap_cases:
  fixes r :: "'a requirement"
  assumes "r = requirement_row s z row"
  shows "(rq_Predicted_Outflow r \<noteq> NaN
        \<and> (\<exists>x. Funding_Gap r = Num x
              \<and> ((0 < x \<and> Action r = ''RAISE_FUNDS'' \<and> Idle_Cash r = Num 0)
               \<or> (x \<le> 0 \<and> Action r = ''INVEST_SURPLUS'' \<and> Idle_Cash r = Num (- x)))))
    \<or> (rq_Predicted_Outflow r = NaN \<and> Funding_Gap r = NaN
        \<and> Action r = ''MONITOR'' \<and> Idle_Cash r = Num 0)"
proof -
  obtain f v st b where row: "row = (f, v, st, b)" by (cases row) auto
  obtain v' where v': "fillna 0 v = Num v'" using fillna_Num by blast
  obtain s' where s': "fillna 0 st = Num s'" using fillna_Num by blast
  obtain b' where b': "fillna 0 b = Num b'" using fillna_Num by blast
  show ?thesis
  proof (cases "Predicted_Outflow f")
    case NaN
    then show ?thesis using assms row v' s' b'
      by (simp add: requirement_row_def Let_def np_select2_def fgt_def)
  next
    case (Num p)
    then show ?thesis using assms row v' s' b'
      by (simp add: requirement_row_def Let_def np_select2_def fgt_def)
  qed
qed

lemma bank_cases:
  "\<exists>x. br_Funding_Gap (bank_requirement_row df d) = Num x
       \<and> ((0 < x \<and> br_Action (bank_requirement_row df d) = ''BANK_FUNDING_REQUIRED'')
        \<or> (x \<le> 0 \<and> br_Action (bank_requirement_row df d) = ''BANK_HAS_EXCESS_LIQUIDITY''))"
  by (auto simp add: bank_requirement_row_def Let_def nansum_def np_select2_def fgt_def)

subsection \<open>The left merges\<close>




lemma set_merge_inputs:
  "set (merge_inputs fcs ms ss bs) =
     {(f, v, s, b). f \<in> set fcs
        \<and> v \<in> set (merge_left am_Account_ID Outflow_Volatility ms (fc_Account_ID f))
        \<and> s \<in> set (merge_left sc_Account_ID Structural_Inflow ss (fc_Account_ID f))
        \<and> b \<in> set (merge_left bl_Account_ID bl_Balance_INR bs (fc_Account_ID f))}"
  by (auto simp: merge_inputs_def Let_def)





subsection \<open>What a matching row contributes\<close>






lemma fillna_zero_case:
  "fillna 0 v = (case v of NaN \<Rightarrow> Num 0 | Num x \<Rightarrow> Num x)"
  by (simp add: fillna_def)


section \<open>The behavior metrics and the structural estimates, row by row\<close>

lemma set_groupby_keys [simp]: "set (groupby_keys key rows) = key ` set rows"
  by (simp add: groupby_keys_def)

lemma distinct_groupby_keys [simp]: "distinct (groupby_keys key rows)"
  by (simp add: groupby_keys_def)

lemma filter_eq_distinct:
  "distinct xs \<Longrightarrow> a \<in> set xs \<Longrightarrow> filter (\<lambda>x. x = a) xs = [a]"
proof (induction xs)
  case Nil
  then show ?case by simp
next
  case (Cons x xs)
  show ?case
  proof (cases "x = a")
    case True
    then have "a \<notin> set xs" using Cons.prems by simp
    then have "filter (\<lambda>x. x = a) xs = []" by (auto simp: filter_empty_conv)
    with True show ?thesis by simp
  next
    case False
    then show ?thesis using Cons by simp
  qed
qed

lemma std_nonneg: "std xs = Num s \<Longrightarrow> 0 \<le> s"
proof -
  assume a: "std xs = Num s"
  let ?m = "sum_list xs / real (length xs)"
  have len: "\<not> length xs < 2" using a by (auto simp: std_def split: if_splits)
  have s: "s = sqrt (sum_list (map (\<lambda>x. (x - ?m)\<^sup>2) xs) / real (length xs - 1))"
    using a len by (simp add: std_def Let_def)
  have "0 \<le> sum_list (map (\<lambda>x. (x - ?m)\<^sup>2) xs)"
    by (rule sum_list_nonneg) auto
  then have "0 \<le> sum_list (map (\<lambda>x. (x - ?m)\<^sup>2) xs) / real (length xs - 1)"
    by (rule divide_nonneg_nonneg) simp
  then show ?thesis unfolding s by simp
qed

lemma std_short: "length xs < 2 \<Longrightarrow> std xs = NaN"
  by (simp add: std_def)

lemma length_dropna_le: "length (dropna vs) \<le> length vs"
  by (induction vs rule: dropna.induct) simp_all

lemma metrics_row_fields:
  "am_Account_ID (metrics_row acc g) = acc"
  "Avg_Outflow (metrics_row acc g) = mean (dropna (map Outflow_INR g))"
  "Outflow_Volatility (metrics_row acc g) = std (dropna (map Outflow_INR g))"
  by (simp_all add: metrics_row_def Let_def)

lemma metrics_row_cv_undefined:
  "\<not> fgt (Avg_Outflow (metrics_row acc g)) (Num 0) \<Longrightarrow>
     Outflow_CV (metrics_row acc g) = NaN \<and> Stability_Score (metrics_row acc g) = Num 0"
  by (simp add: metrics_row_def Let_def)

lemma metrics_row_cv_nan:
  "Outflow_CV (metrics_row acc g) = NaN \<Longrightarrow> Stability_Score (metrics_row acc g) = Num 0"
  by (simp add: metrics_row_def Let_def)

lemma metrics_row_volatility_nan:
  "Outflow_Volatility (metrics_row acc g) = NaN \<Longrightarrow>
     Outflow_CV (metrics_row acc g) = NaN \<and> Stability_Score (metrics_row acc g) = Num 0"
  by (simp add: metrics_row_def Let_def)

lemma metrics_row_cv_defined:
  assumes "Outflow_CV (metrics_row acc g) = Num c"
  shows "0 \<le> c \<and> Stability_Score (metrics_row acc g) = Num (1 / (1 + c))
         \<and> (\<exists>a sd. Avg_Outflow (metrics_row acc g) = Num a \<and> 0 < a
               \<and> Outflow_Volatility (metrics_row acc g) = Num sd \<and> c = sd / a)"
proof -
  let ?avg = "mean (dropna (map Outflow_INR g))"
  let ?sd = "std (dropna (map Outflow_INR g))"
  have cv: "Outflow_CV (metrics_row acc g) = (if fgt ?avg (Num 0) then fdiv ?sd ?avg else NaN)"
    by (simp add: metrics_row_def Let_def)
  with assms have pos: "fgt ?avg (Num 0)" and q: "fdiv ?sd ?avg = Num c"
    by (auto split: if_splits)
  from pos obtain a where a: "?avg = Num a" "0 < a"
    by (cases ?avg) (auto simp: fgt_def)
  from q a obtain sd where sd: "?sd = Num sd" "c = sd / a"
    by (cases ?sd) (auto split: if_splits)
  have "0 \<le> sd" using sd(1) by (rule std_nonneg)
  then have c0: "0 \<le> c" using a sd by simp
  have "Stability_Score (metrics_row acc g) = fdiv (Num 1) (fadd (Num 1) (Num c))"
    using assms by (simp add: metrics_row_def Let_def)
  then have "Stability_Score (metrics_row acc g) = Num (1 / (1 + c))"
    using c0 by simp
  with c0 a sd show ?thesis by (simp add: metrics_row_fields)
qed

lemma metrics_rows:
  "m \<in> set (account_behavior_metrics df) \<Longrightarrow>
     \<exists>acc. acc \<in> Account_ID ` set df \<and> m = metrics_row acc (get_group Account_ID df acc)"
  by (auto simp: account_behavior_metrics_def)

lemma metrics_accounts:
  "map am_Account_ID (account_behavior_metrics df) = groupby_keys Account_ID df"
  by (simp add: account_behavior_metrics_def metrics_row_fields o_def)

lemma metrics_of_account:
  assumes "a \<in> Account_ID ` set df"
  shows "filter (\<lambda>m. am_Account_ID m = a) (account_behavior_metrics df)
           = [metrics_row a (get_group Account_ID df a)]"
proof -
  have "filter (\<lambda>m. am_Account_ID m = a) (account_behavior_metrics df)
          = map (\<lambda>acc. metrics_row acc (get_group Account_ID df acc))
                (filter (\<lambda>acc. acc = a) (groupby_keys Account_ID df))"
    by (simp add: account_behavior_metrics_def filter_map o_def metrics_row_fields)
  also have "filter (\<lambda>acc. acc = a) (groupby_keys Account_ID df) = [a]"
    using assms by (intro filter_eq_distinct) simp_all
  finally show ?thesis by simp
qed

lemma get_group_nonempty: "acc \<in> key ` set rows \<Longrightarrow> get_group key rows acc \<noteq> []"
  by (auto simp: get_group_def filter_empty_conv)

lemma collect_rows_Inr:
  "collect_rows xs = Inr rs \<Longrightarrow> xs = map Inr rs"
proof (induction xs arbitrary: rs)
  case Nil
  then show ?case by simp
next
  case (Cons x xs)
  then show ?case by (auto split: sum.splits)
qed

lemma collect_rows_total:
  "(\<And>x. x \<in> set xs \<Longrightarrow> \<exists>r. x = Inr r) \<Longrightarrow> \<exists>rs. collect_rows xs = Inr rs"
proof (induction xs)
  case Nil
  then show ?case by simp
next
  case (Cons x xs)
  obtain r where "x = Inr r" using Cons.prems by auto
  moreover obtain rs where "collect_rows xs = Inr rs" using Cons by auto
  ultimately show ?case by simp
qed

lemma quantile_in_range:
  "0 \<le> q \<Longrightarrow> q \<le> 1 \<Longrightarrow> \<exists>v. quantile xs q = Inr v"
  by (simp add: quantile_def Let_def)

lemma quantile_nonempty:
  "quantile xs q = Inr v \<Longrightarrow> xs \<noteq> [] \<Longrightarrow> \<exists>x. v = Num x"
  by (auto simp: quantile_def Let_def split: if_splits)

lemma structural_row_total:
  "0 \<le> q \<Longrightarrow> q \<le> 1 \<Longrightarrow> \<exists>r. structural_row q acc g = Inr r"
  using quantile_in_range [of q "dropna (map Inflow_INR g)"]
  by (auto simp: structural_row_def Let_def)

lemma structural_row_ratio:
  assumes "structural_row q acc g = Inr r"
  shows "sc_Account_ID r = acc
         \<and> (\<exists>x. Structural_Ratio r = Num x)
         \<and> (\<not> fgt (mean (dropna (map Inflow_INR g))) (Num 0) \<longrightarrow> Structural_Ratio r = Num 0)"
proof -
  from assms obtain si where si: "quantile (dropna (map Inflow_INR g)) q = Inr si"
    by (auto simp: structural_row_def split: sum.splits)
  show ?thesis
  proof (cases "dropna (map Inflow_INR g) = []")
    case True
    then show ?thesis
      using assms si by (auto simp: structural_row_def Let_def fgt_def mean_def)
  next
    case False
    then obtain x where x: "si = Num x"
      using quantile_nonempty [OF si] by auto
    obtain a where a: "mean (dropna (map Inflow_INR g)) = Num a"
      using False by (simp add: mean_def)
    show ?thesis
      using assms si x a
      by (auto simp: structural_row_def Let_def fgt_def)
  qed
qed

lemma structural_rows:
  assumes "structural_cash_estimation df q = Inr rows" and "r \<in> set rows"
  shows "\<exists>acc. acc \<in> Account_ID ` set df
           \<and> structural_row q acc (get_group Account_ID df acc) = Inr r"
proof -
  have "map (\<lambda>acc. structural_row q acc (get_group Account_ID df acc))
            (groupby_keys Account_ID df) = map Inr rows"
    using assms(1) unfolding structural_cash_estimation_def by (rule collect_rows_Inr)
  then have "Inr r \<in> set (map (\<lambda>acc. structural_row q acc (get_group Account_ID df acc))
            (groupby_keys Account_ID df))"
    using assms(2) by simp
  then show ?thesis by auto
qed

lemma structural_accounts:
  assumes "structural_cash_estimation df q = Inr rows"
  shows "map sc_Account_ID rows = groupby_keys Account_ID df"
proof -
  let ?ks = "groupby_keys Account_ID df"
  let ?f = "\<lambda>acc. structural_row q acc (get_group Account_ID df acc)"
  have eq: "map ?f ?ks = map Inr rows"
    using assms unfolding structural_cash_estimation_def by (rule collect_rows_Inr)
  then have len: "length ?ks = length rows" by (metis length_map)
  show ?thesis
  proof (rule nth_equalityI)
    show "length (map sc_Account_ID rows) = length ?ks" using len by simp
  next
    fix i assume "i < length (map sc_Account_ID rows)"
    then have i: "i < length rows" "i < length ?ks" using len by simp_all
    have "map ?f ?ks ! i = map Inr rows ! i" using eq by simp
    then have "?f (?ks ! i) = Inr (rows ! i)" using i by simp
    then have "sc_Account_ID (rows ! i) = ?ks ! i"
      by (rule structural_row_ratio [THEN conjunct1])
    then show "map sc_Account_ID rows ! i = ?ks ! i" using i by simp
  qed
qed

lemma structural_total:
  "0 \<le> q \<Longrightarrow> q \<le> 1 \<Longrightarrow> \<exists>rows. structural_cash_estimation df q = Inr rows"
  unfolding structural_cash_estimation_def
  by (rule collect_rows_total) (auto dest: structural_row_total)

subsection \<open>What the engine reads of its inputs\<close>

lemma merge_left_reads:
  "merge_left key col right k =
     (case map snd (filter (\<lambda>p. fst p = k) (map (\<lambda>r. (key r, col r)) right)) of
        [] \<Rightarrow> [NaN] | v # vs \<Rightarrow> v # vs)"
proof -
  have "map col (filter (\<lambda>r. key r = k) right)
          = map snd (filter (\<lambda>p. fst p = k) (map (\<lambda>r. (key r, col r)) right))"
    by (induction right) simp_all
  then show ?thesis by (simp add: merge_left_def)
qed

lemma merge_left_cong:
  "map (\<lambda>r. (key r, col r)) right = map (\<lambda>r. (key r, col r)) right' \<Longrightarrow>
     merge_left key col right k = merge_left key col right' k"
  by (simp add: merge_left_reads)

lemma engine_reads:
  assumes "map (\<lambda>m. (am_Account_ID m, Outflow_Volatility m)) ms
             = map (\<lambda>m. (am_Account_ID m, Outflow_Volatility m)) ms'"
    and "map (\<lambda>s. (sc_Account_ID s, Structural_Inflow s)) ss
             = map (\<lambda>s. (sc_Account_ID s, Structural_Inflow s)) ss'"
  shows "run_cash_requirement_engine fcs ms ss bs s z
           = run_cash_requirement_engine fcs ms' ss' bs s z"
proof -
  have "merge_left am_Account_ID Outflow_Volatility ms
          = merge_left am_Account_ID Outflow_Volatility ms'"
    using merge_left_cong [OF assms(1)] by (intro ext)
  moreover have "merge_left sc_Account_ID Structural_Inflow ss
          = merge_left sc_Account_ID Structural_Inflow ss'"
    using merge_left_cong [OF assms(2)] by (intro ext)
  ultimately have "merge_inputs fcs ms ss bs = merge_inputs fcs ms' ss' bs"
    by (simp add: merge_inputs_def)
  then show ?thesis by (simp add: run_cash_requirement_engine_def)
qed

lemmas metrics_eval =
  account_behavior_metrics_def metrics_row_def groupby_keys_def get_group_def
  mean_def std_def fgt_def Let_def

lemma metrics_cv_nonpositive_avg:
  assumes "m \<in> set (account_behavior_metrics df)" and "Avg_Outflow m = Num a" and "a \<le> 0"
  shows "Outflow_CV m = NaN \<and> Stability_Score m = Num 0"
proof -
  obtain acc where m: "m = metrics_row acc (get_group Account_ID df acc)"
    using assms(1) metrics_rows by blast
  have "\<not> fgt (Avg_Outflow (metrics_row acc (get_group Account_ID df acc))) (Num 0)"
    using assms(2,3) unfolding m by (simp add: fgt_def)
  then show ?thesis unfolding m by (rule metrics_row_cv_undefined)
qed

lemma structural_ratio_number:
  assumes "structural_cash_estimation df q = Inr rows" and "r \<in> set rows"
  shows "(\<exists>x. Structural_Ratio r = Num x)
         \<and> (\<forall>a. mean (dropna (map Inflow_INR (get_group Account_ID df (sc_Account_ID r)))) = Num a
               \<longrightarrow> a \<le> 0 \<longrightarrow> Structural_Ratio r = Num 0)"
proof -
  obtain acc where acc: "acc \<in> Account_ID ` set df"
    and row: "structural_row q acc (get_group Account_ID df acc) = Inr r"
    using structural_rows [OF assms] by blast
  note facts = structural_row_ratio [OF row]
  have id: "sc_Account_ID r = acc" using facts by (rule conjunct1)
  have num: "\<exists>x. Structural_Ratio r = Num x" using facts by blast
  have zero: "\<not> fgt (mean (dropna (map Inflow_INR (get_group Account_ID df acc)))) (Num 0)
                 \<longrightarrow> Structural_Ratio r = Num 0"
    using facts by blast
  have "\<forall>a. mean (dropna (map Inflow_INR (get_group Account_ID df acc))) = Num a
               \<longrightarrow> a \<le> 0 \<longrightarrow> Structural_Ratio r = Num 0"
  proof (intro allI impI)
    fix a
    assume "mean (dropna (map Inflow_INR (get_group Account_ID df acc))) = Num a" and "a \<le> 0"
    then have "\<not> fgt (mean (dropna (map Inflow_INR (get_group Account_ID df acc)))) (Num 0)"
      by (simp add: fgt_def)
    with zero show "Structural_Ratio r = Num 0" by (rule mp)
  qed
  with num show ?thesis unfolding id by (rule conjI)
qed

section \<open>The forecaster, row by row\<close>

lemma forecast_row_fields:
  "fc_Date (forecast_row acc g w al d) = d"
  "fc_Account_ID (forecast_row acc g w al d) = acc"
  "Model (forecast_row acc g w al d) = ''BASELINE''"
  by (simp_all add: forecast_row_def Let_def)

lemma pymax_zero_cases:
  "pymax a (Num 0) = NaN \<or> (\<exists>x. pymax a (Num 0) = Num x \<and> 0 \<le> x)"
  by (cases a) (simp_all add: pymax_def fgt_def)

lemma pymax_zero_num: "\<exists>x. pymax (Num p) (Num 0) = Num x \<and> 0 \<le> x"
  by (simp add: pymax_def fgt_def)

lemma mean_nonempty: "xs \<noteq> [] \<Longrightarrow> \<exists>x. mean xs = Num x"
  by (simp add: mean_def)

lemma tail_nonempty: "xs \<noteq> [] \<Longrightarrow> 0 < n \<Longrightarrow> tail n xs \<noteq> []"
  by (cases xs) (simp_all add: tail_def)

lemma dropna_nonempty_iff: "dropna vs \<noteq> [] \<longleftrightarrow> (\<exists>v \<in> set vs. v \<noteq> NaN)"
  by (induction vs rule: dropna.induct) simp_all

lemma dropna_numbers: "dropna (map Num xs) = xs"
  by (induction xs) simp_all

lemma set_dropna: "x \<in> set (dropna vs) \<longleftrightarrow> Num x \<in> set vs"
  by (induction vs rule: dropna.induct) auto

lemma dow_profile_num:
  assumes "\<forall>r \<in> set g. col r \<noteq> NaN" and "dow_profile col g dow = Some v"
  shows "\<exists>x. v = Num x"
proof -
  let ?vs = "map col (filter (\<lambda>r. dayofweek (Date r) = dow) g)"
  from assms(2) have ne: "?vs \<noteq> []" and v: "v = mean (dropna ?vs)"
    by (auto simp: dow_profile_def split: list.splits)
  have "\<forall>x \<in> set ?vs. x \<noteq> NaN" using assms(1) by auto
  with ne have "dropna ?vs \<noteq> []" unfolding dropna_nonempty_iff by (cases ?vs) auto
  then show ?thesis unfolding v by (simp add: mean_def)
qed

lemma forecast_row_cases:
  "(Predicted_Inflow (forecast_row acc g w al d) = NaN
      \<or> (\<exists>x. Predicted_Inflow (forecast_row acc g w al d) = Num x \<and> 0 \<le> x))
   \<and> (Predicted_Outflow (forecast_row acc g w al d) = NaN
      \<or> (\<exists>x. Predicted_Outflow (forecast_row acc g w al d) = Num x \<and> 0 \<le> x))"
  by (simp add: forecast_row_def Let_def pymax_zero_cases)

lemma window_mean_number:
  assumes "g \<noteq> []" and "0 < w" and "\<forall>r \<in> set g. col r \<noteq> NaN"
  shows "\<exists>x. mean (dropna (tail w (map col g))) = Num x"
proof -
  have ne: "tail w (map col g) \<noteq> []" using assms(1,2) by (simp add: tail_nonempty)
  have "\<forall>v \<in> set (tail w (map col g)). v \<noteq> NaN"
    using assms(3) by (auto simp: tail_def dest!: in_set_dropD) metis
  with ne have "dropna (tail w (map col g)) \<noteq> []"
    unfolding dropna_nonempty_iff by (cases "tail w (map col g)") auto
  then show ?thesis by (rule mean_nonempty)
qed

lemma forecast_row_inflow_number:
  assumes "g \<noteq> []" and "0 < w" and "\<forall>r \<in> set g. Inflow_INR r \<noteq> NaN"
  shows "\<exists>x. Predicted_Inflow (forecast_row acc g w al d) = Num x \<and> 0 \<le> x"
proof -
  obtain ri where ri: "mean (dropna (tail w (map Inflow_INR g))) = Num ri"
    using window_mean_number [OF assms] by blast
  obtain di where di: "(case dow_profile Inflow_INR g (dayofweek d) of
                          None \<Rightarrow> Num ri | Some v \<Rightarrow> v) = Num di"
    using dow_profile_num [OF assms(3), of "dayofweek d"]
    by (cases "dow_profile Inflow_INR g (dayofweek d)") auto
  show ?thesis
    by (simp add: forecast_row_def Let_def ri di pymax_zero_num)
qed

lemma forecast_row_outflow_number:
  assumes "g \<noteq> []" and "0 < w" and "\<forall>r \<in> set g. Outflow_INR r \<noteq> NaN"
  shows "\<exists>x. Predicted_Outflow (forecast_row acc g w al d) = Num x \<and> 0 \<le> x"
proof -
  obtain ro where ro: "mean (dropna (tail w (map Outflow_INR g))) = Num ro"
    using window_mean_number [OF assms] by blast
  obtain do' where do': "(case dow_profile Outflow_INR g (dayofweek d) of
                          None \<Rightarrow> Num ro | Some v \<Rightarrow> v) = Num do'"
    using dow_profile_num [OF assms(3), of "dayofweek d"]
    by (cases "dow_profile Outflow_INR g (dayofweek d)") auto
  show ?thesis
    by (simp add: forecast_row_def Let_def ro do' pymax_zero_num)
qed

lemma forecast_row_numbers:
  assumes "g \<noteq> []" and "0 < w"
    and "\<forall>r \<in> set g. Inflow_INR r \<noteq> NaN \<and> Outflow_INR r \<noteq> NaN"
  shows "(\<exists>x. Predicted_Inflow (forecast_row acc g w al d) = Num x \<and> 0 \<le> x)
       \<and> (\<exists>x. Predicted_Outflow (forecast_row acc g w al d) = Num x \<and> 0 \<le> x)"
  using forecast_row_inflow_number [OF assms(1,2)] forecast_row_outflow_number [OF assms(1,2)]
    assms(3) by simp

lemma forecast_row_window_zero:
  "Predicted_Inflow (forecast_row acc g 0 al d) = NaN
   \<and> Predicted_Outflow (forecast_row acc g 0 al d) = NaN"
  by (simp add: forecast_row_def Let_def tail_def mean_def pymax_def fgt_def)

lemma forecast_account_dates:
  "map fc_Date (forecast_account df h w al acc)
     = date_range (Max (set (map Date (sort_key Date (get_group Account_ID df acc)))) + 1) h"
  by (simp add: forecast_account_def Let_def forecast_row_fields o_def)

lemma forecast_account_ids:
  "r \<in> set (forecast_account df h w al acc) \<Longrightarrow> fc_Account_ID r = acc"
  by (auto simp: forecast_account_def Let_def forecast_row_fields)

lemma forecast_account_rows:
  "r \<in> set (forecast_account df h w al acc) \<Longrightarrow>
     \<exists>d. r = forecast_row acc (sort_key Date (get_group Account_ID df acc)) w al d"
  by (auto simp: forecast_account_def Let_def)

lemma sorted_ledger_accounts:
  "Account_ID ` set (sort_key (\<lambda>r. (Account_ID r, Date r)) df) = Account_ID ` set df"
  by simp

lemma sorted_ledger_group_dates:
  "set (map Date (sort_key Date (get_group Account_ID
          (sort_key (\<lambda>r. (Account_ID r, Date r)) df) acc)))
     = set (map Date (get_group Account_ID df acc))"
  by (simp add: get_group_def)

lemma account_forecasts_rows:
  assumes "r \<in> set (account_forecasts df h w al)"
  shows "\<exists>acc g d. acc \<in> Account_ID ` set df \<and> g \<noteq> [] \<and> set g \<subseteq> set df
           \<and> (\<forall>c \<in> set g. Account_ID c = acc) \<and> r = forecast_row acc g w al d"
proof -
  let ?df = "sort_key (\<lambda>r. (Account_ID r, Date r)) df"
  from assms obtain acc where acc: "acc \<in> Account_ID ` set ?df"
    and r: "r \<in> set (forecast_account ?df h w al acc)"
    by (auto simp: account_forecasts_def Let_def)
  let ?g = "sort_key Date (get_group Account_ID ?df acc)"
  have "get_group Account_ID ?df acc \<noteq> []" using acc by (rule get_group_nonempty)
  then have "?g \<noteq> []" by (metis length_sort length_0_conv)
  moreover obtain d where "r = forecast_row acc ?g w al d"
    using forecast_account_rows [OF r] by blast
  moreover have "acc \<in> Account_ID ` set df" using acc by simp
  moreover have "set ?g \<subseteq> set df" by (auto simp: get_group_def)
  moreover have "\<forall>c \<in> set ?g. Account_ID c = acc" by (auto simp: get_group_def)
  ultimately show ?thesis by blast
qed

lemma filter_concat_keyed:
  assumes "distinct ks" and "\<And>k r. r \<in> set (f k) \<Longrightarrow> key r = k" and "a \<in> set ks"
  shows "filter (\<lambda>r. key r = a) (concat (map f ks)) = f a"
  using assms(1,3)
proof (induction ks)
  case Nil
  then show ?case by simp
next
  case (Cons k ks)
  have same: "filter (\<lambda>r. key r = a) (f a) = f a"
    using assms(2) by (simp add: filter_id_conv)
  have other: "\<And>k'. k' \<noteq> a \<Longrightarrow> filter (\<lambda>r. key r = a) (f k') = []"
    using assms(2) by (auto simp: filter_empty_conv)
  show ?case
  proof (cases "k = a")
    case True
    then have "a \<notin> set ks" using Cons.prems by simp
    then have "filter (\<lambda>r. key r = a) (concat (map f ks)) = []"
      using assms(2) by (auto simp: filter_empty_conv)
    with True same show ?thesis by simp
  next
    case False
    then have "a \<in> set ks" using Cons.prems by simp
    with Cons False other show ?thesis by simp
  qed
qed

lemma distinct_concat_keyed:
  assumes "distinct ks" and "\<And>k. distinct (g k)" and "\<And>k x. x \<in> set (g k) \<Longrightarrow> snd x = k"
  shows "distinct (concat (map g ks))"
  using assms(1)
proof (induction ks)
  case Nil
  then show ?case by simp
next
  case (Cons k ks)
  have "set (g k) \<inter> set (concat (map g ks)) = {}"
  proof (rule ccontr)
    assume "set (g k) \<inter> set (concat (map g ks)) \<noteq> {}"
    then obtain x k' where "x \<in> set (g k)" "k' \<in> set ks" "x \<in> set (g k')" by auto
    then have "k = k'" using assms(3) by blast
    then show False using Cons.prems \<open>k' \<in> set ks\<close> by simp
  qed
  then show ?case using Cons assms(2) by simp
qed

lemma distinct_date_range: "distinct (date_range s n)"
  by (simp add: date_range_def distinct_map inj_on_def)

subsection \<open>Dates of the account-level forecasts\<close>

lemma account_forecasts_of_account:
  assumes "a \<in> Account_ID ` set df"
  shows "filter (\<lambda>r. fc_Account_ID r = a) (account_forecasts df h w al)
           = forecast_account (sort_key (\<lambda>r. (Account_ID r, Date r)) df) h w al a"
proof -
  let ?df = "sort_key (\<lambda>r. (Account_ID r, Date r)) df"
  have "a \<in> set (groupby_keys Account_ID ?df)" using assms by simp
  then show ?thesis
    unfolding account_forecasts_def Let_def
    by (intro filter_concat_keyed) (simp_all add: forecast_account_ids)
qed

lemma account_forecasts_dates:
  assumes "a \<in> Account_ID ` set df"
  shows "map fc_Date (filter (\<lambda>r. fc_Account_ID r = a) (account_forecasts df h w al))
           = date_range (Max (set (map Date (get_group Account_ID df a))) + 1) h"
  unfolding account_forecasts_of_account [OF assms] forecast_account_dates
    sorted_ledger_group_dates ..

lemma account_forecasts_keys_distinct:
  "distinct (map (\<lambda>r. (fc_Date r, fc_Account_ID r)) (account_forecasts df h w al))"
proof -
  let ?df = "sort_key (\<lambda>r. (Account_ID r, Date r)) df"
  let ?g = "\<lambda>a. map (\<lambda>r. (fc_Date r, fc_Account_ID r)) (forecast_account ?df h w al a)"
  have eq: "map (\<lambda>r. (fc_Date r, fc_Account_ID r)) (account_forecasts df h w al)
              = concat (map ?g (groupby_keys Account_ID ?df))"
    by (simp add: account_forecasts_def Let_def map_concat o_def)
  have d: "distinct (?g a)" for a
  proof -
    have "distinct (map fst (?g a))"
      by (simp add: o_def forecast_account_dates [unfolded o_def] distinct_date_range
               del: set_map)
    then show ?thesis unfolding distinct_map [of fst] by (rule conjunct1)
  qed
  have k: "x \<in> set (?g a) \<Longrightarrow> snd x = a" for x a
    by (auto simp: forecast_account_ids)
  show ?thesis unfolding eq
    by (rule distinct_concat_keyed) (simp, rule d, rule k)
qed

lemma account_forecasts_accounts:
  "fc_Account_ID ` set (account_forecasts df h w al) \<subseteq> Account_ID ` set df"
proof
  fix a assume "a \<in> fc_Account_ID ` set (account_forecasts df h w al)"
  then obtain r where r: "r \<in> set (account_forecasts df h w al)" and a: "a = fc_Account_ID r"
    by auto
  from account_forecasts_rows [OF r] obtain acc g d
    where "acc \<in> Account_ID ` set df" "r = forecast_row acc g w al d" by blast
  then show "a \<in> Account_ID ` set df" unfolding a by (simp add: forecast_row_fields)
qed

lemma account_forecasts_nonempty:
  assumes "df \<noteq> []" and "0 < h"
  shows "account_forecasts df h w al \<noteq> []"
proof -
  obtain r where r: "r \<in> set df" using assms(1) by (cases df) auto
  then have a: "Account_ID r \<in> Account_ID ` set df" by simp
  have "length (map fc_Date (filter (\<lambda>x. fc_Account_ID x = Account_ID r)
                  (account_forecasts df h w al))) = h"
    unfolding account_forecasts_dates [OF a] by (simp add: date_range_def)
  then show ?thesis using assms(2) by auto
qed

lemma run_baseline_forecasting_returns:
  assumes "df \<noteq> []" and "0 < h"
  shows "run_baseline_forecasting df h w al
           = Inr (account_forecasts df h w al, bank_level_forecast (account_forecasts df h w al))"
  using account_forecasts_nonempty [OF assms]
  by (simp add: run_baseline_forecasting_def Let_def)

subsection \<open>The bank-level forecast\<close>

lemma nansum_numbers: "nansum (map Num xs) = Num (sum_list xs)"
  by (simp add: nansum_def o_def)

lemma nansum_nonneg:
  assumes "\<And>v. v \<in> set vs \<Longrightarrow> v = NaN \<or> (\<exists>x. v = Num x \<and> 0 \<le> x)"
  shows "\<exists>x. nansum vs = Num x \<and> 0 \<le> x"
proof -
  have "0 \<le> sum_list (map (\<lambda>v. case v of NaN \<Rightarrow> 0 | Num x \<Rightarrow> x) vs)"
  proof (rule sum_list_nonneg)
    fix y assume "y \<in> set (map (\<lambda>v. case v of NaN \<Rightarrow> 0 | Num x \<Rightarrow> x) vs)"
    then obtain v where "v \<in> set vs" and y: "y = (case v of NaN \<Rightarrow> 0 | Num x \<Rightarrow> x)"
      by auto
    with assms [of v] show "0 \<le> y" by auto
  qed
  then show ?thesis by (simp add: nansum_def)
qed

lemma numbers_as_list:
  assumes "\<And>v. v \<in> set vs \<Longrightarrow> \<exists>x. v = Num x"
  shows "\<exists>xs. vs = map Num xs"
  using assms
proof (induction vs)
  case Nil
  then show ?case by simp
next
  case (Cons v vs)
  then obtain x xs where "v = Num x" "vs = map Num xs" by (metis list.set_intros)
  then have "v # vs = map Num (x # xs)" by simp
  then show ?case by (rule exI)
qed

lemma bank_level_forecast_dates:
  "map bf_Date (bank_level_forecast fc) = groupby_keys fc_Date fc"
  by (simp add: bank_level_forecast_def Let_def o_def)

lemma bank_level_forecast_rows:
  assumes "b \<in> set (bank_level_forecast fc)"
  shows "bf_Date b \<in> fc_Date ` set fc
       \<and> bf_Predicted_Inflow b
           = nansum (map Predicted_Inflow (filter (\<lambda>r. fc_Date r = bf_Date b) fc))
       \<and> bf_Predicted_Outflow b
           = nansum (map Predicted_Outflow (filter (\<lambda>r. fc_Date r = bf_Date b) fc))
       \<and> bf_Model b = ''BASELINE_BANK''"
  using assms by (auto simp: bank_level_forecast_def Let_def get_group_def)

lemma account_forecasts_inflow_number:
  assumes "0 < w" and "r \<in> set (account_forecasts df h w al)"
    and "\<forall>c \<in> set df. Account_ID c = fc_Account_ID r \<longrightarrow> Inflow_INR c \<noteq> NaN"
  shows "\<exists>x. Predicted_Inflow r = Num x \<and> 0 \<le> x"
proof -
  from account_forecasts_rows [OF assms(2)] obtain acc g d
    where g: "g \<noteq> []" "set g \<subseteq> set df" "\<forall>c \<in> set g. Account_ID c = acc"
      and r: "r = forecast_row acc g w al d" by blast
  have "fc_Account_ID r = acc" unfolding r by (simp add: forecast_row_fields)
  then have "\<forall>c \<in> set g. Inflow_INR c \<noteq> NaN" using g(2,3) assms(3) by blast
  then show ?thesis unfolding r using g(1) assms(1) by (intro forecast_row_inflow_number)
qed

lemma account_forecasts_outflow_number:
  assumes "0 < w" and "r \<in> set (account_forecasts df h w al)"
    and "\<forall>c \<in> set df. Account_ID c = fc_Account_ID r \<longrightarrow> Outflow_INR c \<noteq> NaN"
  shows "\<exists>x. Predicted_Outflow r = Num x \<and> 0 \<le> x"
proof -
  from account_forecasts_rows [OF assms(2)] obtain acc g d
    where g: "g \<noteq> []" "set g \<subseteq> set df" "\<forall>c \<in> set g. Account_ID c = acc"
      and r: "r = forecast_row acc g w al d" by blast
  have "fc_Account_ID r = acc" unfolding r by (simp add: forecast_row_fields)
  then have "\<forall>c \<in> set g. Outflow_INR c \<noteq> NaN" using g(2,3) assms(3) by blast
  then show ?thesis unfolding r using g(1) assms(1) by (intro forecast_row_outflow_number)
qed

lemma account_forecasts_numbers:
  assumes "0 < w"
    and "\<forall>c \<in> set df. Inflow_INR c \<noteq> NaN \<and> Outflow_INR c \<noteq> NaN"
    and "r \<in> set (account_forecasts df h w al)"
  shows "(\<exists>x. Predicted_Inflow r = Num x \<and> 0 \<le> x)
       \<and> (\<exists>x. Predicted_Outflow r = Num x \<and> 0 \<le> x)"
  using account_forecasts_inflow_number [OF assms(1,3)]
    account_forecasts_outflow_number [OF assms(1,3)] assms(2) by simp

lemma account_forecasts_cases:
  assumes "r \<in> set (account_forecasts df h w al)"
  shows "(Predicted_Inflow r = NaN \<or> (\<exists>x. Predicted_Inflow r = Num x \<and> 0 \<le> x))
       \<and> (Predicted_Outflow r = NaN \<or> (\<exists>x. Predicted_Outflow r = Num x \<and> 0 \<le> x))"
proof -
  from account_forecasts_rows [OF assms] obtain acc g d
    where r: "r = forecast_row acc g w al d" by blast
  show ?thesis unfolding r by (rule forecast_row_cases)
qed

section \<open>Ledgers with constant flows\<close>

lemma constant_list: "\<forall>x \<in> set xs. x = c \<Longrightarrow> xs = replicate (length xs) c"
  by (induction xs) simp_all

lemma sum_list_constant:
  assumes "\<forall>x \<in> set xs. x = (c::real)"
  shows "sum_list xs = real (length xs) * c"
proof -
  have "sum_list (replicate (length xs) c) = real (length xs) * c"
    by (simp add: sum_list_replicate)
  then show ?thesis using constant_list [OF assms] by simp
qed

lemma mean_constant:
  assumes "xs \<noteq> []" and "\<forall>x \<in> set xs. x = c"
  shows "mean xs = Num c"
  using assms(1) by (simp add: mean_def sum_list_constant [OF assms(2)])

lemma std_constant:
  assumes "2 \<le> length xs" and "\<forall>x \<in> set xs. x = c"
  shows "std xs = Num 0"
proof -
  have ne: "xs \<noteq> []" using assms(1) by auto
  have m: "sum_list xs / real (length xs) = c"
    using ne by (simp add: sum_list_constant [OF assms(2)])
  have "\<forall>y \<in> set (map (\<lambda>x. (x - c)\<^sup>2) xs). y = 0" using assms(2) by auto
  then have "sum_list (map (\<lambda>x. (x - c)\<^sup>2) xs) = 0"
    using sum_list_constant [of "map (\<lambda>x. (x - c)\<^sup>2) xs" 0] by simp
  then show ?thesis using assms(1) by (simp add: std_def m)
qed

lemma sort_constant:
  assumes "\<forall>x \<in> set xs. x = (c::real)"
  shows "\<forall>x \<in> set (sort xs). x = c"
  using assms by simp

lemma quantile_constant:
  assumes "xs \<noteq> []" and "\<forall>x \<in> set xs. x = c" and "0 \<le> q" and "q \<le> 1"
  shows "quantile xs q = Inr (Num c)"
proof -
  obtain n where n: "length xs = Suc n" using assms(1) by (cases xs) auto
  define pos where "pos = real n * q"
  have posn: "pos \<le> real n"
    unfolding pos_def using assms(4) by (simp add: mult_left_le)
  have "\<lfloor>pos\<rfloor> \<le> int n" using posn by (simp add: floor_le_iff)
  then have lo: "nat \<lfloor>pos\<rfloor> < length (sort xs)" using n by simp
  have "\<lceil>pos\<rceil> \<le> int n" using posn by (simp add: ceiling_le_iff)
  then have hi: "nat \<lceil>pos\<rceil> < length (sort xs)" using n by simp
  have all: "\<forall>x \<in> set (sort xs). x = c" using assms(2) by simp
  have l: "sort xs ! nat \<lfloor>pos\<rfloor> = c" using all lo nth_mem by blast
  have h: "sort xs ! nat \<lceil>pos\<rceil> = c" using all hi nth_mem by blast
  have "quantile xs q
          = Inr (Num (sort xs ! nat \<lfloor>pos\<rfloor>
                      + (sort xs ! nat \<lceil>pos\<rceil> - sort xs ! nat \<lfloor>pos\<rfloor>)
                        * (pos - real (nat \<lfloor>pos\<rfloor>))))"
    using assms(1,3,4) by (simp add: quantile_def Let_def pos_def n)
  then show ?thesis unfolding l h by simp
qed

lemma dropna_constant:
  "\<forall>v \<in> set vs. v = Num c \<Longrightarrow> dropna vs = replicate (length vs) c"
  by (induction vs) auto

lemma mean_dropna_constant:
  assumes "vs \<noteq> []" and "\<forall>v \<in> set vs. v = Num c"
  shows "mean (dropna vs) = Num c"
  unfolding dropna_constant [OF assms(2)]
  by (rule mean_constant) (use assms(1) in simp_all)

lemma dow_profile_constant:
  assumes "\<forall>r \<in> set g. col r = Num c"
  shows "dow_profile col g dow = None \<or> dow_profile col g dow = Some (Num c)"
proof (cases "map col (filter (\<lambda>r. dayofweek (Date r) = dow) g)")
  case Nil
  then show ?thesis by (simp add: dow_profile_def)
next
  case (Cons v vs)
  have "\<forall>x \<in> set (v # vs). x = Num c" unfolding Cons [symmetric] using assms by auto
  then have "mean (dropna (v # vs)) = Num c" by (intro mean_dropna_constant) simp_all
  then show ?thesis using Cons by (simp add: dow_profile_def)
qed

lemma forecast_row_constant:
  assumes "g \<noteq> []" and "0 < w"
    and "\<forall>r \<in> set g. Inflow_INR r = Num ci \<and> Outflow_INR r = Num co"
    and "0 \<le> ci" and "0 \<le> co"
  shows "forecast_row acc g w al d
           = \<lparr>fc_Date = d, fc_Account_ID = acc, Predicted_Inflow = Num ci,
              Predicted_Outflow = Num co, Model = ''BASELINE''\<rparr>"
proof -
  have ti: "tail w (map Inflow_INR g) \<noteq> []" using assms(1,2) by (simp add: tail_nonempty)
  have to: "tail w (map Outflow_INR g) \<noteq> []" using assms(1,2) by (simp add: tail_nonempty)
  have "\<forall>x \<in> set (tail w (map Inflow_INR g)). x = Num ci"
    using assms(3) by (auto simp: tail_def dest!: in_set_dropD)
  then have ri: "mean (dropna (tail w (map Inflow_INR g))) = Num ci"
    by (rule mean_dropna_constant [OF ti])
  have "\<forall>x \<in> set (tail w (map Outflow_INR g)). x = Num co"
    using assms(3) by (auto simp: tail_def dest!: in_set_dropD)
  then have ro: "mean (dropna (tail w (map Outflow_INR g))) = Num co"
    by (rule mean_dropna_constant [OF to])
  have di: "(case dow_profile Inflow_INR g (dayofweek d) of None \<Rightarrow> Num ci | Some v \<Rightarrow> v)
              = Num ci"
    using dow_profile_constant [of g Inflow_INR ci "dayofweek d"] assms(3) by auto
  have do': "(case dow_profile Outflow_INR g (dayofweek d) of None \<Rightarrow> Num co | Some v \<Rightarrow> v)
              = Num co"
    using dow_profile_constant [of g Outflow_INR co "dayofweek d"] assms(3) by auto
  have bi: "al * ci + (1 - al) * ci = ci" by (simp add: algebra_simps)
  have bo: "al * co + (1 - al) * co = co" by (simp add: algebra_simps)
  show ?thesis
    using assms(4,5)
    by (simp add: forecast_row_def Let_def ri ro di do' bi bo pymax_def fgt_def)
qed

lemma account_forecasts_constant:
  assumes "0 < w"
    and "\<forall>r \<in> set df. Inflow_INR r = Num ci \<and> Outflow_INR r = Num co"
    and "0 \<le> ci" and "0 \<le> co"
    and "r \<in> set (account_forecasts df h w al)"
  shows "Predicted_Inflow r = Num ci \<and> Predicted_Outflow r = Num co"
proof -
  from account_forecasts_rows [OF assms(5)] obtain acc g d
    where g: "set g \<subseteq> set df" "g \<noteq> []" and r: "r = forecast_row acc g w al d" by blast
  have "\<forall>r \<in> set g. Inflow_INR r = Num ci \<and> Outflow_INR r = Num co"
    using g(1) assms(2) by blast
  from forecast_row_constant [OF g(2) assms(1) this assms(3,4)]
  show ?thesis unfolding r by simp
qed

lemma account_forecasts_single_account:
  assumes "Account_ID ` set df = {a}"
  shows "filter (\<lambda>r. fc_Account_ID r = a) (account_forecasts df h w al)
           = account_forecasts df h w al"
  using account_forecasts_accounts [of df h w al] assms by (auto simp: filter_id_conv)

lemma account_forecasts_single_length:
  assumes "Account_ID ` set df = {a}"
  shows "length (account_forecasts df h w al) = h"
proof -
  have a: "a \<in> Account_ID ` set df" using assms by simp
  have "length (map fc_Date (filter (\<lambda>r. fc_Account_ID r = a) (account_forecasts df h w al)))
          = h"
    unfolding account_forecasts_dates [OF a] by (simp add: date_range_def)
  then show ?thesis unfolding account_forecasts_single_account [OF assms] by simp
qed

subsection \<open>The account with fourteen identical rows\<close>

lemma scenario_ledger_accounts: "Account_ID ` set scenario_ledger = {1}"
  by (simp add: scenario_ledger_def image_image image_constant_conv)

lemma scenario_ledger_nonempty: "scenario_ledger \<noteq> []"
  by (simp add: scenario_ledger_def)

lemma scenario_last_date:
  "Max (set (map Date (get_group Account_ID scenario_ledger 1))) = 13"
  by code_simp


lemma merge_inputs_single_match:
  assumes "\<forall>f \<in> set fcs.
             merge_left am_Account_ID Outflow_Volatility ms (fc_Account_ID f) = [v]
           \<and> merge_left sc_Account_ID Structural_Inflow ss (fc_Account_ID f) = [st]
           \<and> merge_left bl_Account_ID bl_Balance_INR bs (fc_Account_ID f) = [b]"
  shows "merge_inputs fcs ms ss bs = map (\<lambda>f. (f, v, st, b)) fcs"
  using assms
proof (induction fcs)
  case Nil
  then show ?case by (simp add: merge_inputs_def)
next
  case (Cons f fcs)
  then show ?case by (simp add: merge_inputs_def Let_def)
qed

lemma single_key: "distinct xs \<Longrightarrow> set xs = {a} \<Longrightarrow> xs = [a]"
proof (cases xs)
  case Nil
  assume "set xs = {a}"
  with Nil show ?thesis by simp
next
  case (Cons x ys)
  assume d: "distinct xs" and s: "set xs = {a}"
  have x: "x = a" using s Cons by auto
  have "set ys \<subseteq> {a}" using s Cons by auto
  moreover have "a \<notin> set ys" using d Cons x by simp
  ultimately have "ys = []" by (cases ys) auto
  with Cons x show ?thesis by simp
qed

lemma groupby_keys_single:
  "key ` set rows = {a} \<Longrightarrow> groupby_keys key rows = [a]"
  by (rule single_key) simp_all

lemma get_group_single:
  "key ` set rows = {a} \<Longrightarrow> get_group key rows a = rows"
  by (auto simp: get_group_def filter_id_conv)

lemma scenario_ledger_flows:
  "\<forall>r \<in> set scenario_ledger. Inflow_INR r = Num 1000 \<and> Outflow_INR r = Num 800"
  by (simp add: scenario_ledger_def)

lemma scenario_ledger_length: "length scenario_ledger = 14"
  by (simp add: scenario_ledger_def)

lemma scenario_metrics:
  "account_behavior_metrics scenario_ledger
     = [metrics_row 1 scenario_ledger]"
  using groupby_keys_single [OF scenario_ledger_accounts]
    get_group_single [OF scenario_ledger_accounts]
  by (simp add: account_behavior_metrics_def)

lemma scenario_inflows:
  "dropna (map Inflow_INR scenario_ledger) = replicate 14 1000"
  using dropna_constant [of "map Inflow_INR scenario_ledger" 1000] scenario_ledger_flows
  by (simp add: scenario_ledger_length)

lemma scenario_outflows:
  "dropna (map Outflow_INR scenario_ledger) = replicate 14 800"
  using dropna_constant [of "map Outflow_INR scenario_ledger" 800] scenario_ledger_flows
  by (simp add: scenario_ledger_length)

lemma scenario_volatility:
  "Outflow_Volatility (metrics_row 1 scenario_ledger) = Num 0"
  unfolding metrics_row_fields scenario_outflows
  by (rule std_constant [where c = 800]) simp_all

lemma scenario_structural:
  "structural_cash_estimation scenario_ledger 0.25
     = Inr [\<lparr>sc_Account_ID = 1, Structural_Inflow = Num 1000, Volatile_Inflow = Num 0,
             Structural_Ratio = Num 1\<rparr>]"
proof -
  have q: "quantile (dropna (map Inflow_INR scenario_ledger)) 0.25 = Inr (Num 1000)"
    unfolding scenario_inflows by (rule quantile_constant) simp_all
  have m: "mean (dropna (map Inflow_INR scenario_ledger)) = Num 1000"
    unfolding scenario_inflows by (rule mean_constant) simp_all
  show ?thesis
    using q m groupby_keys_single [OF scenario_ledger_accounts]
      get_group_single [OF scenario_ledger_accounts]
    by (simp add: structural_cash_estimation_def structural_row_def Let_def
          pymax_def fgt_def)
qed

lemma scenario_forecast_rows:
  assumes "0 < w" and "f \<in> set (account_forecasts scenario_ledger h w al)"
  shows "fc_Account_ID f = 1 \<and> Predicted_Inflow f = Num 1000 \<and> Predicted_Outflow f = Num 800"
proof -
  have "fc_Account_ID f \<in> Account_ID ` set scenario_ledger"
    using account_forecasts_accounts [of scenario_ledger h w al] assms(2) by blast
  then have "fc_Account_ID f = 1" unfolding scenario_ledger_accounts by simp
  moreover have "Predicted_Inflow f = Num 1000 \<and> Predicted_Outflow f = Num 800"
    by (rule account_forecasts_constant [OF assms(1) scenario_ledger_flows _ _ assms(2)])
       simp_all
  ultimately show ?thesis by simp
qed

section \<open>Evaluation on concrete tables\<close>

lemmas engine_eval =
  run_cash_requirement_engine_def merge_inputs_def merge_left_def requirement_row_def
  fillna_def np_select2_def fgt_def Let_def groupby_keys_def get_group_def
  bank_requirement_row_def nansum_def

lemmas forecast_eval =
  account_forecasts_def forecast_account_def forecast_row_def dow_profile_def
  groupby_keys_def get_group_def date_range_def dayofweek_def tail_def mean_def
  pymax_def fgt_def Let_def

section \<open>Claims about the cash requirement engine\<close>

text \<open>
  C2, as amended. Every account-level requirement row is in exactly one of three cases:
  its Funding_Gap is a number above 0, the Action is RAISE_FUNDS and Idle_Cash is 0; its
  Funding_Gap is a number at most 0, the Action is INVEST_SURPLUS and Idle_Cash is minus
  the gap; or its Predicted_Outflow is NaN, and then the Funding_Gap is NaN, the Action
  is the MONITOR default and Idle_Cash is 0. A row whose Predicted_Outflow is a number
  is never in the third case. At bank level the gap is always a number (the sum skips
  NaN), so only BANK_FUNDING_REQUIRED (gap above 0) and BANK_HAS_EXCESS_LIQUIDITY (gap at
  most 0) are reachable.
\<close>

theorem requirement_action_cases:
  "(\<forall>r \<in> set (fst (run_cash_requirement_engine fcs ms ss bs s z)).
      (rq_Predicted_Outflow r \<noteq> NaN
        \<and> (\<exists>x. Funding_Gap r = Num x
              \<and> ((0 < x \<and> Action r = ''RAISE_FUNDS'' \<and> Idle_Cash r = Num 0)
               \<or> (x \<le> 0 \<and> Action r = ''INVEST_SURPLUS'' \<and> Idle_Cash r = Num (- x)))))
    \<or> (rq_Predicted_Outflow r = NaN \<and> Funding_Gap r = NaN
        \<and> Action r = ''MONITOR'' \<and> Idle_Cash r = Num 0))
   \<and> (\<forall>b \<in> set (snd (run_cash_requirement_engine fcs ms ss bs s z)).
        \<exists>x. br_Funding_Gap b = Num x
          \<and> ((0 < x \<and> br_Action b = ''BANK_FUNDING_REQUIRED'')
           \<or> (x \<le> 0 \<and> br_Action b = ''BANK_HAS_EXCESS_LIQUIDITY'')))"
proof (intro conjI ballI)
  fix r assume "r \<in> set (fst (run_cash_requirement_engine fcs ms ss bs s z))"
  then obtain row where r: "r = requirement_row s z row"
    by (auto simp: engine_rows)
  from gap_cases [OF r] show
    "(rq_Predicted_Outflow r \<noteq> NaN
        \<and> (\<exists>x. Funding_Gap r = Num x
              \<and> ((0 < x \<and> Action r = ''RAISE_FUNDS'' \<and> Idle_Cash r = Num 0)
               \<or> (x \<le> 0 \<and> Action r = ''INVEST_SURPLUS'' \<and> Idle_Cash r = Num (- x)))))
    \<or> (rq_Predicted_Outflow r = NaN \<and> Funding_Gap r = NaN
        \<and> Action r = ''MONITOR'' \<and> Idle_Cash r = Num 0)" .
next
  fix b assume "b \<in> set (snd (run_cash_requirement_engine fcs ms ss bs s z))"
  then obtain d where
    "b = bank_requirement_row (fst (run_cash_requirement_engine fcs ms ss bs s z)) d"
    by (auto simp: engine_bank_rows)
  then show "\<exists>x. br_Funding_Gap b = Num x
          \<and> ((0 < x \<and> br_Action b = ''BANK_FUNDING_REQUIRED'')
           \<or> (x \<le> 0 \<and> br_Action b = ''BANK_HAS_EXCESS_LIQUIDITY''))"
    using bank_cases by blast
qed

theorem requirement_action_cases_witness:
  "requirement_row 0.15 1.65 (example_forecast (Num 100), NaN, NaN, NaN)
     \<in> set (fst (run_cash_requirement_engine [example_forecast (Num 100)] [] [] [] 0.15 1.65))
   \<and> rq_Predicted_Outflow (requirement_row 0.15 1.65 (example_forecast (Num 100), NaN, NaN, NaN))
       \<noteq> NaN
   \<and> Funding_Gap (requirement_row 0.15 1.65 (example_forecast (Num 100), NaN, NaN, NaN))
       = Num 115
   \<and> Action (requirement_row 0.15 1.65 (example_forecast (Num 100), NaN, NaN, NaN))
       = ''RAISE_FUNDS''
   \<and> Idle_Cash (requirement_row 0.15 1.65 (example_forecast (Num 100), NaN, NaN, NaN))
       = Num 0
   \<and> map br_Action
        (snd (run_cash_requirement_engine [example_forecast (Num 100)] [] [] [] 0.15 1.65))
       = [''BANK_FUNDING_REQUIRED'']"
  using requirement_action_cases [of "[example_forecast (Num 100)]" "[]" "[]" "[]" "0.15" "1.65"]
  by (simp add: engine_eval example_forecast_def)

text \<open>
  C2 as stated fails: a forecast row whose Predicted_Outflow is NaN has a NaN
  Funding_Gap, which is neither above 0 nor at most 0, and its Action is the MONITOR
  default. Such a row is what the forecaster itself emits for a rolling window of 0.
\<close>

theorem monitor_reachable_counterexample:
  "map Action (fst (run_cash_requirement_engine [example_forecast NaN] [] [] [] 0.15 1.65))
     = [''MONITOR'']
   \<and> map Funding_Gap
        (fst (run_cash_requirement_engine [example_forecast NaN] [] [] [] 0.15 1.65))
     = [NaN]
   \<and> map Action
        (fst (run_cash_requirement_engine (account_forecasts single_row_ledger 1 0 0.7)
                [] [] [] 0.15 1.65))
     = [''MONITOR'']"
  by (simp add: engine_eval forecast_eval example_forecast_def single_row_ledger_def)

section \<open>C9: the left joins and the zero fill\<close>



section \<open>Claims about the behavior metrics\<close>

text \<open>
  C7. The metrics table has one row per account of the ledger. On every row, when the
  outflow coefficient of variation is defined (a number c), Stability_Score is
  1 / (1 + c) and lies in (0, 1]; when it is undefined (NaN) Stability_Score is 0; and
  an Avg_Outflow of 0 makes it undefined, so Stability_Score is 0 there.
\<close>

theorem stability_score_range:
  "am_Account_ID ` set (account_behavior_metrics df) = Account_ID ` set df
   \<and> distinct (map am_Account_ID (account_behavior_metrics df))
   \<and> (\<forall>m \<in> set (account_behavior_metrics df).
        (\<forall>c. Outflow_CV m = Num c \<longrightarrow>
              Stability_Score m = Num (1 / (1 + c)) \<and> 0 < 1 / (1 + c) \<and> 1 / (1 + c) \<le> 1)
        \<and> (Outflow_CV m = NaN \<longrightarrow> Stability_Score m = Num 0)
        \<and> (Avg_Outflow m = Num 0 \<longrightarrow> Outflow_CV m = NaN \<and> Stability_Score m = Num 0))"
proof (intro conjI ballI allI impI)
  have "set (map am_Account_ID (account_behavior_metrics df)) = Account_ID ` set df"
    unfolding metrics_accounts by simp
  then show "am_Account_ID ` set (account_behavior_metrics df) = Account_ID ` set df"
    by simp
  show "distinct (map am_Account_ID (account_behavior_metrics df))"
    unfolding metrics_accounts by simp
next
  fix m c
  assume "m \<in> set (account_behavior_metrics df)" and cv: "Outflow_CV m = Num c"
  then obtain acc where m: "m = metrics_row acc (get_group Account_ID df acc)"
    using metrics_rows by blast
  from metrics_row_cv_defined [OF cv [unfolded m]]
  have c0: "0 \<le> c" and s: "Stability_Score m = Num (1 / (1 + c))"
    unfolding m by simp_all
  show "Stability_Score m = Num (1 / (1 + c))" by (rule s)
  show "0 < 1 / (1 + c)" using c0 by simp
  show "1 / (1 + c) \<le> 1" using c0 by simp
next
  fix m
  assume "m \<in> set (account_behavior_metrics df)" and cv: "Outflow_CV m = NaN"
  then obtain acc where m: "m = metrics_row acc (get_group Account_ID df acc)"
    using metrics_rows by blast
  show "Stability_Score m = Num 0"
    using cv unfolding m by (rule metrics_row_cv_nan)
next
  fix m
  assume "m \<in> set (account_behavior_metrics df)" and avg: "Avg_Outflow m = Num 0"
  then obtain acc where m: "m = metrics_row acc (get_group Account_ID df acc)"
    using metrics_rows by blast
  have "\<not> fgt (Avg_Outflow (metrics_row acc (get_group Account_ID df acc))) (Num 0)"
    using avg unfolding m by (simp add: fgt_def)
  from metrics_row_cv_undefined [OF this]
  show "Outflow_CV m = NaN" "Stability_Score m = Num 0"
    unfolding m by simp_all
qed

theorem stability_score_range_witness:
  "metrics_row 1 (get_group Account_ID two_account_ledger 1)
     \<in> set (account_behavior_metrics two_account_ledger)
   \<and> Outflow_CV (metrics_row 1 (get_group Account_ID two_account_ledger 1))
       = Num (sqrt 80000 / 800)
   \<and> Stability_Score (metrics_row 1 (get_group Account_ID two_account_ledger 1))
       = Num (1 / (1 + sqrt 80000 / 800))
   \<and> 0 < 1 / (1 + sqrt 80000 / 800)
   \<and> 1 / (1 + sqrt 80000 / 800) \<le> 1
   \<and> metrics_row 2 (get_group Account_ID two_account_ledger 2)
     \<in> set (account_behavior_metrics two_account_ledger)
   \<and> Avg_Outflow (metrics_row 2 (get_group Account_ID two_account_ledger 2)) = Num 0
   \<and> Outflow_CV (metrics_row 2 (get_group Account_ID two_account_ledger 2)) = NaN
   \<and> Stability_Score (metrics_row 2 (get_group Account_ID two_account_ledger 2)) = Num 0"
proof -
  let ?m1 = "metrics_row 1 (get_group Account_ID two_account_ledger 1)"
  let ?m2 = "metrics_row 2 (get_group Account_ID two_account_ledger 2)"
  note range = stability_score_range [of two_account_ledger]
  have mem1: "?m1 \<in> set (account_behavior_metrics two_account_ledger)"
    by (simp add: account_behavior_metrics_def groupby_keys_def two_account_ledger_def)
  have mem2: "?m2 \<in> set (account_behavior_metrics two_account_ledger)"
    by (simp add: account_behavior_metrics_def groupby_keys_def two_account_ledger_def)
  have cv1: "Outflow_CV ?m1 = Num (sqrt 80000 / 800)"
    by (simp add: metrics_eval two_account_ledger_def power2_eq_square)
  have avg2: "Avg_Outflow ?m2 = Num 0"
    by (simp add: metrics_eval two_account_ledger_def)
  from range mem1 cv1 have s1: "Stability_Score ?m1 = Num (1 / (1 + sqrt 80000 / 800))
      \<and> 0 < 1 / (1 + sqrt 80000 / 800) \<and> 1 / (1 + sqrt 80000 / 800) \<le> 1"
    by blast
  from range mem2 avg2 have s2: "Outflow_CV ?m2 = NaN \<and> Stability_Score ?m2 = Num 0"
    by blast
  from mem1 mem2 cv1 avg2 s1 s2 show ?thesis by blast
qed

text \<open>
  C8 as stated fails: for an account whose average outflow is 0 the metrics table that
  is handed downstream holds NaN in Outflow_CV, not 0 or another sentinel.
\<close>

theorem outflow_cv_nan_counterexample:
  "map Avg_Outflow
       (filter (\<lambda>m. am_Account_ID m = 2) (account_behavior_metrics two_account_ledger))
     = [Num 0]
   \<and> map Outflow_CV
       (filter (\<lambda>m. am_Account_ID m = 2) (account_behavior_metrics two_account_ledger))
     = [NaN]"
  by (simp add: account_behavior_metrics_def metrics_row_def groupby_keys_def get_group_def
        mean_def std_def fgt_def two_account_ledger_def Let_def)

text \<open>
  C8, as amended. Division by zero in the ratios is never an error. The metrics table
  has a row for every account of the ledger; when Avg_Outflow is not above 0, Outflow_CV
  is NaN in that table and Stability_Score is 0. structural_cash_estimation returns its
  table for every quantile in [0, 1], with one row for every account of the ledger; on
  each row Structural_Ratio is a number, and it is 0 when the account's mean inflow is
  not above 0 (or is NaN). The engine reads only Account_ID with Outflow_Volatility from
  the metrics and Account_ID with Structural_Inflow from the structural estimates, so
  neither ratio reaches its output.
\<close>

theorem ratio_division_by_zero:
  "am_Account_ID ` set (account_behavior_metrics df) = Account_ID ` set df
   \<and> (\<forall>m \<in> set (account_behavior_metrics df).
      \<forall>a. Avg_Outflow m = Num a \<longrightarrow> a \<le> 0 \<longrightarrow>
        Outflow_CV m = NaN \<and> Stability_Score m = Num 0)
   \<and> (0 \<le> q \<longrightarrow> q \<le> 1 \<longrightarrow> (\<exists>rows. structural_cash_estimation df q = Inr rows))
   \<and> (\<forall>rows. structural_cash_estimation df q = Inr rows \<longrightarrow>
        sc_Account_ID ` set rows = Account_ID ` set df
        \<and> distinct (map sc_Account_ID rows)
        \<and> (\<forall>r \<in> set rows.
           (\<exists>x. Structural_Ratio r = Num x)
           \<and> (\<forall>a. mean (dropna (map Inflow_INR (get_group Account_ID df (sc_Account_ID r))))
                     = Num a
                  \<longrightarrow> a \<le> 0 \<longrightarrow> Structural_Ratio r = Num 0)
           \<and> (mean (dropna (map Inflow_INR (get_group Account_ID df (sc_Account_ID r)))) = NaN
                  \<longrightarrow> Structural_Ratio r = Num 0)))
   \<and> (map (\<lambda>m. (am_Account_ID m, Outflow_Volatility m)) ms
         = map (\<lambda>m. (am_Account_ID m, Outflow_Volatility m)) ms' \<longrightarrow>
      map (\<lambda>s. (sc_Account_ID s, Structural_Inflow s)) ss
         = map (\<lambda>s. (sc_Account_ID s, Structural_Inflow s)) ss' \<longrightarrow>
      run_cash_requirement_engine fcs ms ss bs s z
         = run_cash_requirement_engine fcs ms' ss' bs s z)"
proof (intro conjI)
  have "set (map am_Account_ID (account_behavior_metrics df)) = Account_ID ` set df"
    unfolding metrics_accounts by simp
  then show "am_Account_ID ` set (account_behavior_metrics df) = Account_ID ` set df"
    by simp
  show "\<forall>m \<in> set (account_behavior_metrics df).
      \<forall>a. Avg_Outflow m = Num a \<longrightarrow> a \<le> 0 \<longrightarrow>
        Outflow_CV m = NaN \<and> Stability_Score m = Num 0"
    using metrics_cv_nonpositive_avg by blast
  show "0 \<le> q \<longrightarrow> q \<le> 1 \<longrightarrow> (\<exists>rows. structural_cash_estimation df q = Inr rows)"
    using structural_total by blast
  show "\<forall>rows. structural_cash_estimation df q = Inr rows \<longrightarrow>
        sc_Account_ID ` set rows = Account_ID ` set df
        \<and> distinct (map sc_Account_ID rows)
        \<and> (\<forall>r \<in> set rows.
           (\<exists>x. Structural_Ratio r = Num x)
           \<and> (\<forall>a. mean (dropna (map Inflow_INR (get_group Account_ID df (sc_Account_ID r))))
                     = Num a
                  \<longrightarrow> a \<le> 0 \<longrightarrow> Structural_Ratio r = Num 0)
           \<and> (mean (dropna (map Inflow_INR (get_group Account_ID df (sc_Account_ID r)))) = NaN
                  \<longrightarrow> Structural_Ratio r = Num 0))"
  proof (intro allI impI conjI ballI)
    fix rows
    assume rows: "structural_cash_estimation df q = Inr rows"
    have "set (map sc_Account_ID rows) = Account_ID ` set df"
      unfolding structural_accounts [OF rows] by simp
    then show "sc_Account_ID ` set rows = Account_ID ` set df" by simp
    show "distinct (map sc_Account_ID rows)"
      unfolding structural_accounts [OF rows] by simp
    fix r assume r: "r \<in> set rows"
    note facts = structural_ratio_number [OF rows r]
    show "\<exists>x. Structural_Ratio r = Num x" using facts by (rule conjunct1)
    {
      fix a
      assume "mean (dropna (map Inflow_INR (get_group Account_ID df (sc_Account_ID r)))) = Num a"
        and "a \<le> 0"
      then show "Structural_Ratio r = Num 0" using facts by blast
    }
    {
      assume nan: "mean (dropna (map Inflow_INR (get_group Account_ID df (sc_Account_ID r)))) = NaN"
      obtain acc where row: "structural_row q acc (get_group Account_ID df acc) = Inr r"
        using structural_rows [OF rows r] by blast
      note rr = structural_row_ratio [OF row]
      have id: "sc_Account_ID r = acc" using rr by (rule conjunct1)
      have "\<not> fgt (mean (dropna (map Inflow_INR (get_group Account_ID df acc)))) (Num 0)"
        using nan unfolding id by (simp add: fgt_def)
      then show "Structural_Ratio r = Num 0" using rr by blast
    }
  qed
  show "map (\<lambda>m. (am_Account_ID m, Outflow_Volatility m)) ms
         = map (\<lambda>m. (am_Account_ID m, Outflow_Volatility m)) ms' \<longrightarrow>
      map (\<lambda>s. (sc_Account_ID s, Structural_Inflow s)) ss
         = map (\<lambda>s. (sc_Account_ID s, Structural_Inflow s)) ss' \<longrightarrow>
      run_cash_requirement_engine fcs ms ss bs s z
         = run_cash_requirement_engine fcs ms' ss' bs s z"
  proof (intro impI)
    assume "map (\<lambda>m. (am_Account_ID m, Outflow_Volatility m)) ms
         = map (\<lambda>m. (am_Account_ID m, Outflow_Volatility m)) ms'"
      and "map (\<lambda>s. (sc_Account_ID s, Structural_Inflow s)) ss
         = map (\<lambda>s. (sc_Account_ID s, Structural_Inflow s)) ss'"
    then show "run_cash_requirement_engine fcs ms ss bs s z
         = run_cash_requirement_engine fcs ms' ss' bs s z"
      by (rule engine_reads)
  qed
qed

theorem ratio_division_by_zero_witness:
  "metrics_row 2 (get_group Account_ID two_account_ledger 2)
     \<in> set (account_behavior_metrics two_account_ledger)
   \<and> Avg_Outflow (metrics_row 2 (get_group Account_ID two_account_ledger 2)) = Num 0
   \<and> Outflow_CV (metrics_row 2 (get_group Account_ID two_account_ledger 2)) = NaN
   \<and> Stability_Score (metrics_row 2 (get_group Account_ID two_account_ledger 2)) = Num 0
   \<and> (0::real) \<le> 0.25 \<and> (0.25::real) \<le> 1
   \<and> structural_cash_estimation two_account_ledger 0.25
       = Inr [\<lparr>sc_Account_ID = 1, Structural_Inflow = Num 1050, Volatile_Inflow = Num 50,
                Structural_Ratio = Num (21 / 22)\<rparr>,
              \<lparr>sc_Account_ID = 2, Structural_Inflow = Num 0, Volatile_Inflow = Num 0,
                Structural_Ratio = Num 0\<rparr>]
   \<and> mean (dropna (map Inflow_INR (get_group Account_ID two_account_ledger 2))) = Num 0
   \<and> run_cash_requirement_engine two_forecasts
        (account_behavior_metrics two_account_ledger)
        [\<lparr>sc_Account_ID = 1, Structural_Inflow = Num 1050, Volatile_Inflow = Num 50,
           Structural_Ratio = Num (21 / 22)\<rparr>,
         \<lparr>sc_Account_ID = 2, Structural_Inflow = Num 0, Volatile_Inflow = Num 0,
           Structural_Ratio = Num 0\<rparr>] [] 0.15 1.65
      = run_cash_requirement_engine two_forecasts
          (map (\<lambda>m. m\<lparr>Outflow_CV := Num 0\<rparr>) (account_behavior_metrics two_account_ledger))
          (map (\<lambda>r. r\<lparr>Structural_Ratio := NaN\<rparr>)
            [\<lparr>sc_Account_ID = 1, Structural_Inflow = Num 1050, Volatile_Inflow = Num 50,
               Structural_Ratio = Num (21 / 22)\<rparr>,
             \<lparr>sc_Account_ID = 2, Structural_Inflow = Num 0, Volatile_Inflow = Num 0,
               Structural_Ratio = Num 0\<rparr>]) [] 0.15 1.65
   \<and> map (\<lambda>r. (rq_Outflow_Volatility r, rq_Structural_Inflow r, Funding_Gap r))
       (filter (\<lambda>r. rq_Account_ID r = 2)
          (fst (run_cash_requirement_engine two_forecasts
                 (account_behavior_metrics two_account_ledger)
                 [\<lparr>sc_Account_ID = 1, Structural_Inflow = Num 1050, Volatile_Inflow = Num 50,
                    Structural_Ratio = Num (21 / 22)\<rparr>,
                  \<lparr>sc_Account_ID = 2, Structural_Inflow = Num 0, Volatile_Inflow = Num 0,
                    Structural_Ratio = Num 0\<rparr>] [] 0.15 1.65)))
      = [(Num 0, Num 0, Num 230)]"
proof -
  let ?m = "metrics_row 2 (get_group Account_ID two_account_ledger 2)"
  let ?ms = "account_behavior_metrics two_account_ledger"
  let ?ms' = "map (\<lambda>m. m\<lparr>Outflow_CV := Num 0\<rparr>) ?ms"
  let ?r2 = "\<lparr>sc_Account_ID = 2::nat, Structural_Inflow = Num 0, Volatile_Inflow = Num 0,
                Structural_Ratio = Num 0\<rparr>"
  let ?ss = "[\<lparr>sc_Account_ID = 1::nat, Structural_Inflow = Num 1050, Volatile_Inflow = Num 50,
                Structural_Ratio = Num (21 / 22)\<rparr>, ?r2]"
  let ?ss' = "map (\<lambda>r. r\<lparr>Structural_Ratio := NaN\<rparr>) ?ss"
  note fact = ratio_division_by_zero
    [of two_account_ledger "0.25" ?ms ?ms' ?ss ?ss' two_forecasts "[]" "0.15" "1.65"]
  have mem: "?m \<in> set ?ms"
    by (simp add: account_behavior_metrics_def groupby_keys_def two_account_ledger_def)
  have avg: "Avg_Outflow ?m = Num 0"
    by (simp add: metrics_eval two_account_ledger_def)
  note metrics_part = fact [THEN conjunct2, THEN conjunct1, rule_format]
  note total_part = fact [THEN conjunct2, THEN conjunct2, THEN conjunct1, rule_format]
  note reads_part =
    fact [THEN conjunct2, THEN conjunct2, THEN conjunct2, THEN conjunct2, rule_format]
  have cv: "Outflow_CV ?m = NaN \<and> Stability_Score ?m = Num 0"
    by (rule metrics_part [OF mem avg]) simp
  have q: "(0::real) \<le> 0.25 \<and> (0.25::real) \<le> 1" by simp
  have "\<exists>rows. structural_cash_estimation two_account_ledger 0.25 = Inr rows"
    by (rule total_part) simp_all
  have st: "structural_cash_estimation two_account_ledger 0.25 = Inr ?ss"
    by (simp add: structural_cash_estimation_def structural_row_def quantile_def mean_def
          groupby_keys_def get_group_def two_account_ledger_def pymax_def fgt_def Let_def)
  have m2: "mean (dropna (map Inflow_INR (get_group Account_ID two_account_ledger 2))) = Num 0"
    by (simp add: mean_def get_group_def two_account_ledger_def)
  have proj: "map (\<lambda>m. (am_Account_ID m, Outflow_Volatility m)) ?ms
                = map (\<lambda>m. (am_Account_ID m, Outflow_Volatility m)) ?ms'"
    by (simp add: o_def)
  have projs: "map (\<lambda>s. (sc_Account_ID s, Structural_Inflow s)) ?ss
                = map (\<lambda>s. (sc_Account_ID s, Structural_Inflow s)) ?ss'"
    by simp
  have eng: "run_cash_requirement_engine two_forecasts ?ms ?ss [] 0.15 1.65
      = run_cash_requirement_engine two_forecasts ?ms' ?ss' [] 0.15 1.65"
    by (rule reads_part [OF proj projs])
  have out: "map (\<lambda>r. (rq_Outflow_Volatility r, rq_Structural_Inflow r, Funding_Gap r))
       (filter (\<lambda>r. rq_Account_ID r = 2)
          (fst (run_cash_requirement_engine two_forecasts ?ms ?ss [] 0.15 1.65)))
      = [(Num 0, Num 0, Num 230)]"
    by (simp add: engine_eval metrics_eval two_forecasts_def two_account_ledger_def)
  show ?thesis
  proof (intro conjI)
    show "?m \<in> set ?ms" by (rule mem)
    show "Avg_Outflow ?m = Num 0" by (rule avg)
    show "Outflow_CV ?m = NaN" using cv by (rule conjunct1)
    show "Stability_Score ?m = Num 0" using cv by (rule conjunct2)
    show "(0::real) \<le> 0.25" by simp
    show "(0.25::real) \<le> 1" by simp
    show "structural_cash_estimation two_account_ledger 0.25 = Inr ?ss" by (rule st)
    show "mean (dropna (map Inflow_INR (get_group Account_ID two_account_ledger 2))) = Num 0"
      by (rule m2)
    show "run_cash_requirement_engine two_forecasts ?ms ?ss [] 0.15 1.65
      = run_cash_requirement_engine two_forecasts ?ms' ?ss' [] 0.15 1.65" by (rule eng)
    show "map (\<lambda>r. (rq_Outflow_Volatility r, rq_Structural_Inflow r, Funding_Gap r))
       (filter (\<lambda>r. rq_Account_ID r = 2)
          (fst (run_cash_requirement_engine two_forecasts ?ms ?ss [] 0.15 1.65)))
      = [(Num 0, Num 0, Num 230)]" by (rule out)
  qed
qed

text \<open>
  C10. For an account with exactly one historical row, the metrics table has one row
  for it, with Outflow_Volatility NaN and Stability_Score 0; and in the output of the
  engine run on that metrics table, every row of the account has Outflow_Volatility 0
  after the fill and a Safety_Buffer of exactly 0.
\<close>

theorem single_observation_volatility:
  assumes "length (get_group Account_ID df a) = 1"
  shows "\<exists>m. filter (\<lambda>m. am_Account_ID m = a) (account_behavior_metrics df) = [m]
           \<and> Outflow_Volatility m = NaN
           \<and> Stability_Score m = Num 0
           \<and> (\<forall>r \<in> set (fst (run_cash_requirement_engine fcs (account_behavior_metrics df)
                                 ss bs s z)).
                 rq_Account_ID r = a \<longrightarrow>
                   rq_Outflow_Volatility r = Num 0 \<and> Safety_Buffer r = Num 0)"
proof -
  let ?g = "get_group Account_ID df a"
  let ?m = "metrics_row a ?g"
  have "?g \<noteq> []" using assms by auto
  then have a: "a \<in> Account_ID ` set df"
    by (auto simp: get_group_def filter_empty_conv)
  have one: "filter (\<lambda>m. am_Account_ID m = a) (account_behavior_metrics df) = [?m]"
    using a by (rule metrics_of_account)
  have "length (dropna (map Outflow_INR ?g)) < 2"
    using assms length_dropna_le [of "map Outflow_INR ?g"] by simp
  then have vol: "Outflow_Volatility ?m = NaN"
    by (simp add: metrics_row_fields std_short)
  have stab: "Stability_Score ?m = Num 0"
    using metrics_row_volatility_nan [OF vol] by simp
  have rows: "\<forall>r \<in> set (fst (run_cash_requirement_engine fcs (account_behavior_metrics df)
                                 ss bs s z)).
                 rq_Account_ID r = a \<longrightarrow>
                   rq_Outflow_Volatility r = Num 0 \<and> Safety_Buffer r = Num 0"
  proof (intro ballI impI)
    fix r
    assume "r \<in> set (fst (run_cash_requirement_engine fcs (account_behavior_metrics df)
                                 ss bs s z))"
      and ra: "rq_Account_ID r = a"
    then obtain f v st b where r: "r = requirement_row s z (f, v, st, b)"
      and v: "v \<in> set (merge_left am_Account_ID Outflow_Volatility
                          (account_behavior_metrics df) (fc_Account_ID f))"
      by (auto simp: engine_rows set_merge_inputs)
    have "fc_Account_ID f = a" using ra r by (simp add: requirement_row_forecast)
    then have "v \<in> set (merge_left am_Account_ID Outflow_Volatility
                          (account_behavior_metrics df) a)"
      using v by simp
    then have "v = NaN"
      using vol by (simp add: merge_left_def one)
    then show "rq_Outflow_Volatility r = Num 0 \<and> Safety_Buffer r = Num 0"
      using r by (simp add: requirement_row_fills)
  qed
  show ?thesis
  proof (intro exI conjI)
    show "filter (\<lambda>m. am_Account_ID m = a) (account_behavior_metrics df) = [?m]"
      by (rule one)
    show "Outflow_Volatility ?m = NaN" by (rule vol)
    show "Stability_Score ?m = Num 0" by (rule stab)
    show "\<forall>r \<in> set (fst (run_cash_requirement_engine fcs (account_behavior_metrics df)
                                 ss bs s z)).
                 rq_Account_ID r = a \<longrightarrow>
                   rq_Outflow_Volatility r = Num 0 \<and> Safety_Buffer r = Num 0"
      by (rule rows)
  qed
qed

theorem single_observation_volatility_witness:
  "length (get_group Account_ID single_row_ledger 7) = 1
   \<and> map Outflow_Volatility (account_behavior_metrics single_row_ledger) = [NaN]
   \<and> map Stability_Score (account_behavior_metrics single_row_ledger) = [Num 0]
   \<and> map rq_Outflow_Volatility
        (fst (run_cash_requirement_engine [example_forecast (Num 100)]
                (account_behavior_metrics single_row_ledger) [] [] 0.15 1.65)) = [Num 0]
   \<and> map Safety_Buffer
        (fst (run_cash_requirement_engine [example_forecast (Num 100)]
                (account_behavior_metrics single_row_ledger) [] [] 0.15 1.65)) = [Num 0]"
proof -
  have one: "length (get_group Account_ID single_row_ledger 7) = 1"
    by (simp add: get_group_def single_row_ledger_def)
  have ms: "account_behavior_metrics single_row_ledger
              = [metrics_row 7 (get_group Account_ID single_row_ledger 7)]"
    by (simp add: account_behavior_metrics_def groupby_keys_def single_row_ledger_def)
  have rows: "fst (run_cash_requirement_engine [example_forecast (Num 100)]
                (account_behavior_metrics single_row_ledger) [] [] 0.15 1.65)
      = [requirement_row 0.15 1.65 (example_forecast (Num 100),
           Outflow_Volatility (metrics_row 7 (get_group Account_ID single_row_ledger 7)),
           NaN, NaN)]"
    by (simp add: ms engine_rows merge_inputs_def merge_left_def metrics_row_fields
          example_forecast_def)
  let ?m = "metrics_row 7 (get_group Account_ID single_row_ledger 7)"
  from single_observation_volatility
         [OF one, of "[example_forecast (Num 100)]" "[]" "[]" "0.15" "1.65"]
  obtain m where m: "filter (\<lambda>m. am_Account_ID m = 7)
                       (account_behavior_metrics single_row_ledger) = [m]"
    and vol: "Outflow_Volatility m = NaN" and stab: "Stability_Score m = Num 0"
    by blast
  have "filter (\<lambda>m. am_Account_ID m = 7) (account_behavior_metrics single_row_ledger) = [?m]"
    by (simp add: ms metrics_row_fields)
  with m have eq: "m = ?m" by simp
  have vol': "Outflow_Volatility ?m = NaN" using vol eq by simp
  have stab': "Stability_Score ?m = Num 0" using stab eq by simp
  show ?thesis
    unfolding rows using one vol' stab' by (simp add: ms requirement_row_fills)
qed

section \<open>C3: forecast dates per account\<close>

lemma account_forecasts_horizon_zero: "account_forecasts df 0 w al = []"
  by (simp add: account_forecasts_def forecast_account_def date_range_def Let_def)

text \<open>
  Claim C3. For every account of the input ledger, also one with a single historical
  observation, the forecaster builds exactly \<open>horizon\<close> forecast rows; their dates are the
  consecutive calendar days that begin the day after the account's maximum historical
  date. The rows belong to accounts of the ledger only, and no (Date, Account_ID) pair
  occurs twice. For a non-empty ledger and a horizon of at least one day
  \<open>run_baseline_forecasting\<close> returns exactly these rows as its account-level table. (With
  a horizon of zero days there are no rows at all, and building the bank-level table
  from the column-less frame raises KeyError.)
\<close>

theorem forecast_dates_contiguous:
  "(\<forall>a \<in> Account_ID ` set df.
      map fc_Date (filter (\<lambda>r. fc_Account_ID r = a) (account_forecasts df h w al))
        = map (\<lambda>i. Max (set (map Date (get_group Account_ID df a))) + 1 + int i) [0..<h]
      \<and> length (filter (\<lambda>r. fc_Account_ID r = a) (account_forecasts df h w al)) = h)
   \<and> fc_Account_ID ` set (account_forecasts df h w al) \<subseteq> Account_ID ` set df
   \<and> distinct (map (\<lambda>r. (fc_Date r, fc_Account_ID r)) (account_forecasts df h w al))
   \<and> (df \<noteq> [] \<and> 0 < h \<longrightarrow>
        run_baseline_forecasting df h w al
          = Inr (account_forecasts df h w al,
                 bank_level_forecast (account_forecasts df h w al)))
   \<and> run_baseline_forecasting df 0 w al = Inl KeyError"
proof (intro conjI ballI impI)
  fix a assume a: "a \<in> Account_ID ` set df"
  show dates: "map fc_Date (filter (\<lambda>r. fc_Account_ID r = a) (account_forecasts df h w al))
        = map (\<lambda>i. Max (set (map Date (get_group Account_ID df a))) + 1 + int i) [0..<h]"
    unfolding account_forecasts_dates [OF a] by (simp add: date_range_def)
  have "length (map fc_Date (filter (\<lambda>r. fc_Account_ID r = a) (account_forecasts df h w al)))
          = h"
    unfolding dates by simp
  then show "length (filter (\<lambda>r. fc_Account_ID r = a) (account_forecasts df h w al)) = h"
    by simp
next
  show "fc_Account_ID ` set (account_forecasts df h w al) \<subseteq> Account_ID ` set df"
    by (rule account_forecasts_accounts)
next
  show "distinct (map (\<lambda>r. (fc_Date r, fc_Account_ID r)) (account_forecasts df h w al))"
    by (rule account_forecasts_keys_distinct)
next
  assume "df \<noteq> [] \<and> 0 < h"
  then show "run_baseline_forecasting df h w al
          = Inr (account_forecasts df h w al,
                 bank_level_forecast (account_forecasts df h w al))"
    by (simp add: run_baseline_forecasting_returns)
next
  show "run_baseline_forecasting df 0 w al = Inl KeyError"
    by (simp add: run_baseline_forecasting_def account_forecasts_horizon_zero)
qed

theorem forecast_dates_contiguous_witness:
  "map fc_Date (filter (\<lambda>r. fc_Account_ID r = 7) (account_forecasts single_row_ledger 3 14 0.7))
     = [1, 2, 3]
   \<and> length (filter (\<lambda>r. fc_Account_ID r = 7) (account_forecasts single_row_ledger 3 14 0.7))
     = 3
   \<and> run_baseline_forecasting single_row_ledger 3 14 0.7
     = Inr (account_forecasts single_row_ledger 3 14 0.7,
            bank_level_forecast (account_forecasts single_row_ledger 3 14 0.7))"
  using forecast_dates_contiguous [of single_row_ledger 3 14 "0.7"]
  by (simp add: single_row_ledger_def get_group_def upt_rec [of _ 3] upt_rec [of _ 2]
        upt_rec [of _ 1] upt_rec [of _ "Suc _"])

section \<open>C5: bank-level reconciliation\<close>

lemma exact_sum_numbers: "exact_sum (map Num xs) = Num (sum_list xs)"
  by (induction xs) (simp_all add: exact_sum_def)

lemma nansum_exact:
  assumes "\<forall>v \<in> set vs. v \<noteq> NaN"
  shows "nansum vs = exact_sum vs"
proof -
  have "\<And>v. v \<in> set vs \<Longrightarrow> \<exists>x. v = Num x"
    using assms by (metis fval.exhaust)
  then obtain xs where "vs = map Num xs" using numbers_as_list by blast
  then show ?thesis by (simp add: nansum_numbers exact_sum_numbers)
qed

text \<open>
  An account-level prediction that is NaN is skipped by the bank-level sum: for the ledger
  with an empty outflow cell, forecast with the default window, the account's predicted
  outflow is NaN and the bank's is 0, while the exact sum of that one value is NaN.
\<close>

theorem bank_sum_skips_nan_counterexample:
  "map Predicted_Outflow (account_forecasts missing_cell_ledger 1 14 0.7) = [NaN]
   \<and> map bf_Predicted_Outflow
         (bank_level_forecast (account_forecasts missing_cell_ledger 1 14 0.7)) = [Num 0]
   \<and> exact_sum [NaN] = NaN"
proof -
  have afc: "account_forecasts missing_cell_ledger 1 14 0.7
       = [\<lparr>fc_Date = 1, fc_Account_ID = 7, Predicted_Inflow = Num 1000,
           Predicted_Outflow = NaN, Model = ''BASELINE''\<rparr>]"
    by (simp add: forecast_eval missing_cell_ledger_def)
  show ?thesis
    unfolding afc
    by (simp add: bank_level_forecast_def groupby_keys_def get_group_def nansum_def Let_def
          exact_sum_def)
qed

text \<open>
  Claim C5, amended. The bank-level forecast has one row for each Date that occurs in the
  account-level forecast, and none for any other Date. On every such row the bank
  Predicted_Outflow, and likewise the bank Predicted_Inflow, is the sum of the
  account-level values of all rows with that Date that are numbers: a NaN value is
  skipped, that is, counted as 0. This is the exact sum whenever none of these values is
  NaN, in particular for every forecast built with a rolling window of at least one day
  from a ledger without a NaN inflow or outflow cell. Two accounts with Predicted_Outflow
  100 and 200 on the same Date give a bank Predicted_Outflow of 300.
\<close>

theorem bank_forecast_reconciles:
  "set (map bf_Date (bank_level_forecast fc)) = fc_Date ` set fc
   \<and> distinct (map bf_Date (bank_level_forecast fc))
   \<and> (\<forall>b \<in> set (bank_level_forecast fc).
        bf_Predicted_Outflow b
          = Num (sum_list (map (\<lambda>r. case Predicted_Outflow r of NaN \<Rightarrow> 0 | Num x \<Rightarrow> x)
                               (filter (\<lambda>r. fc_Date r = bf_Date b) fc)))
      \<and> bf_Predicted_Inflow b
          = Num (sum_list (map (\<lambda>r. case Predicted_Inflow r of NaN \<Rightarrow> 0 | Num x \<Rightarrow> x)
                               (filter (\<lambda>r. fc_Date r = bf_Date b) fc)))
      \<and> ((\<forall>r \<in> set fc. fc_Date r = bf_Date b \<longrightarrow> Predicted_Outflow r \<noteq> NaN) \<longrightarrow>
           bf_Predicted_Outflow b
             = exact_sum (map Predicted_Outflow (filter (\<lambda>r. fc_Date r = bf_Date b) fc)))
      \<and> ((\<forall>r \<in> set fc. fc_Date r = bf_Date b \<longrightarrow> Predicted_Inflow r \<noteq> NaN) \<longrightarrow>
           bf_Predicted_Inflow b
             = exact_sum (map Predicted_Inflow (filter (\<lambda>r. fc_Date r = bf_Date b) fc))))
   \<and> (0 < w \<and> (\<forall>c \<in> set df. Inflow_INR c \<noteq> NaN \<and> Outflow_INR c \<noteq> NaN) \<longrightarrow>
        (\<forall>b \<in> set (bank_level_forecast (account_forecasts df h w al)).
            bf_Predicted_Outflow b
              = exact_sum (map Predicted_Outflow
                  (filter (\<lambda>r. fc_Date r = bf_Date b) (account_forecasts df h w al)))
          \<and> bf_Predicted_Inflow b
              = exact_sum (map Predicted_Inflow
                  (filter (\<lambda>r. fc_Date r = bf_Date b) (account_forecasts df h w al)))))
   \<and> (\<forall>afc bfc. run_baseline_forecasting df h w al = Inr (afc, bfc)
        \<longrightarrow> afc = account_forecasts df h w al \<and> bfc = bank_level_forecast afc)
   \<and> bank_level_forecast two_forecasts
       = [\<lparr>bf_Date = 5, bf_Predicted_Inflow = Num 30, bf_Predicted_Outflow = Num 300,
           bf_Model = ''BASELINE_BANK''\<rparr>,
          \<lparr>bf_Date = 7, bf_Predicted_Inflow = Num 30, bf_Predicted_Outflow = Num 40,
           bf_Model = ''BASELINE_BANK''\<rparr>]"
proof (intro conjI)
  show "set (map bf_Date (bank_level_forecast fc)) = fc_Date ` set fc"
    unfolding bank_level_forecast_dates by simp
  show "distinct (map bf_Date (bank_level_forecast fc))"
    unfolding bank_level_forecast_dates by simp
  show "\<forall>b \<in> set (bank_level_forecast fc).
        bf_Predicted_Outflow b
          = Num (sum_list (map (\<lambda>r. case Predicted_Outflow r of NaN \<Rightarrow> 0 | Num x \<Rightarrow> x)
                               (filter (\<lambda>r. fc_Date r = bf_Date b) fc)))
      \<and> bf_Predicted_Inflow b
          = Num (sum_list (map (\<lambda>r. case Predicted_Inflow r of NaN \<Rightarrow> 0 | Num x \<Rightarrow> x)
                               (filter (\<lambda>r. fc_Date r = bf_Date b) fc)))
      \<and> ((\<forall>r \<in> set fc. fc_Date r = bf_Date b \<longrightarrow> Predicted_Outflow r \<noteq> NaN) \<longrightarrow>
           bf_Predicted_Outflow b
             = exact_sum (map Predicted_Outflow (filter (\<lambda>r. fc_Date r = bf_Date b) fc)))
      \<and> ((\<forall>r \<in> set fc. fc_Date r = bf_Date b \<longrightarrow> Predicted_Inflow r \<noteq> NaN) \<longrightarrow>
           bf_Predicted_Inflow b
             = exact_sum (map Predicted_Inflow (filter (\<lambda>r. fc_Date r = bf_Date b) fc)))"
  proof (intro ballI conjI impI)
    fix b :: bank_forecast
    assume b: "b \<in> set (bank_level_forecast fc)"
    note rows = bank_level_forecast_rows [OF b]
    show "bf_Predicted_Outflow b
          = Num (sum_list (map (\<lambda>r. case Predicted_Outflow r of NaN \<Rightarrow> 0 | Num x \<Rightarrow> x)
                               (filter (\<lambda>r. fc_Date r = bf_Date b) fc)))"
      using rows by (simp add: nansum_def o_def)
    show "bf_Predicted_Inflow b
          = Num (sum_list (map (\<lambda>r. case Predicted_Inflow r of NaN \<Rightarrow> 0 | Num x \<Rightarrow> x)
                               (filter (\<lambda>r. fc_Date r = bf_Date b) fc)))"
      using rows by (simp add: nansum_def o_def)
    {
      assume "\<forall>r \<in> set fc. fc_Date r = bf_Date b \<longrightarrow> Predicted_Outflow r \<noteq> NaN"
      then have "\<forall>v \<in> set (map Predicted_Outflow (filter (\<lambda>r. fc_Date r = bf_Date b) fc)).
                   v \<noteq> NaN"
        by auto
      then show "bf_Predicted_Outflow b
             = exact_sum (map Predicted_Outflow (filter (\<lambda>r. fc_Date r = bf_Date b) fc))"
        using rows nansum_exact by metis
    }
    {
      assume "\<forall>r \<in> set fc. fc_Date r = bf_Date b \<longrightarrow> Predicted_Inflow r \<noteq> NaN"
      then have "\<forall>v \<in> set (map Predicted_Inflow (filter (\<lambda>r. fc_Date r = bf_Date b) fc)).
                   v \<noteq> NaN"
        by auto
      then show "bf_Predicted_Inflow b
             = exact_sum (map Predicted_Inflow (filter (\<lambda>r. fc_Date r = bf_Date b) fc))"
        using rows nansum_exact by metis
    }
  qed
  show "0 < w \<and> (\<forall>c \<in> set df. Inflow_INR c \<noteq> NaN \<and> Outflow_INR c \<noteq> NaN) \<longrightarrow>
        (\<forall>b \<in> set (bank_level_forecast (account_forecasts df h w al)).
            bf_Predicted_Outflow b
              = exact_sum (map Predicted_Outflow
                  (filter (\<lambda>r. fc_Date r = bf_Date b) (account_forecasts df h w al)))
          \<and> bf_Predicted_Inflow b
              = exact_sum (map Predicted_Inflow
                  (filter (\<lambda>r. fc_Date r = bf_Date b) (account_forecasts df h w al))))"
  proof (intro impI ballI)
    fix b :: bank_forecast
    let ?afc = "account_forecasts df h w al"
    let ?rows = "filter (\<lambda>r. fc_Date r = bf_Date b) ?afc"
    assume hyp: "0 < w \<and> (\<forall>c \<in> set df. Inflow_INR c \<noteq> NaN \<and> Outflow_INR c \<noteq> NaN)"
      and b: "b \<in> set (bank_level_forecast ?afc)"
    have num: "Predicted_Inflow r \<noteq> NaN \<and> Predicted_Outflow r \<noteq> NaN" if "r \<in> set ?afc" for r
      using account_forecasts_numbers [of w df r h al] hyp that by auto
    have "\<forall>v \<in> set (map Predicted_Outflow ?rows). v \<noteq> NaN" using num by auto
    then have o: "nansum (map Predicted_Outflow ?rows) = exact_sum (map Predicted_Outflow ?rows)"
      by (rule nansum_exact)
    have "\<forall>v \<in> set (map Predicted_Inflow ?rows). v \<noteq> NaN" using num by auto
    then have i: "nansum (map Predicted_Inflow ?rows) = exact_sum (map Predicted_Inflow ?rows)"
      by (rule nansum_exact)
    show "bf_Predicted_Outflow b = exact_sum (map Predicted_Outflow ?rows)
          \<and> bf_Predicted_Inflow b = exact_sum (map Predicted_Inflow ?rows)"
      using bank_level_forecast_rows [OF b] o i by simp
  qed
  show "\<forall>afc bfc. run_baseline_forecasting df h w al = Inr (afc, bfc)
        \<longrightarrow> afc = account_forecasts df h w al \<and> bfc = bank_level_forecast afc"
    by (auto simp: run_baseline_forecasting_def Let_def split: if_splits)
  show "bank_level_forecast two_forecasts
       = [\<lparr>bf_Date = 5, bf_Predicted_Inflow = Num 30, bf_Predicted_Outflow = Num 300,
           bf_Model = ''BASELINE_BANK''\<rparr>,
          \<lparr>bf_Date = 7, bf_Predicted_Inflow = Num 30, bf_Predicted_Outflow = Num 40,
           bf_Model = ''BASELINE_BANK''\<rparr>]"
    by (simp add: bank_level_forecast_def two_forecasts_def groupby_keys_def get_group_def
          nansum_def Let_def)
qed

theorem bank_forecast_reconciles_witness:
  "\<lparr>bf_Date = 5, bf_Predicted_Inflow = Num 30, bf_Predicted_Outflow = Num 300,
     bf_Model = ''BASELINE_BANK''\<rparr> \<in> set (bank_level_forecast two_forecasts)
   \<and> map Predicted_Outflow (filter (\<lambda>r. fc_Date r = 5) two_forecasts) = [Num 100, Num 200]
   \<and> exact_sum (map Predicted_Outflow (filter (\<lambda>r. fc_Date r = 5) two_forecasts)) = Num 300
   \<and> exact_sum (map Predicted_Inflow (filter (\<lambda>r. fc_Date r = 5) two_forecasts)) = Num 30
   \<and> (0 :: nat) < 1
   \<and> Inflow_INR (hd single_row_ledger) \<noteq> NaN \<and> Outflow_INR (hd single_row_ledger) \<noteq> NaN
   \<and> run_baseline_forecasting single_row_ledger 1 1 0.7
       = Inr (account_forecasts single_row_ledger 1 1 0.7,
              [\<lparr>bf_Date = 1, bf_Predicted_Inflow = Num 1000, bf_Predicted_Outflow = Num 800,
                bf_Model = ''BASELINE_BANK''\<rparr>])
   \<and> exact_sum (map Predicted_Outflow (account_forecasts single_row_ledger 1 1 0.7)) = Num 800
   \<and> map fc_Date (account_forecasts single_row_ledger 1 1 0.7) = [1]"
proof -
  let ?b = "\<lparr>bf_Date = 5, bf_Predicted_Inflow = Num 30, bf_Predicted_Outflow = Num 300,
     bf_Model = ''BASELINE_BANK''\<rparr>"
  note t = bank_forecast_reconciles [of two_forecasts 1 single_row_ledger 1 "0.7"]
  from t have rows: "bank_level_forecast two_forecasts
       = [?b, \<lparr>bf_Date = 7, bf_Predicted_Inflow = Num 30, bf_Predicted_Outflow = Num 40,
           bf_Model = ''BASELINE_BANK''\<rparr>]"
    by (elim conjE)
  have b: "?b \<in> set (bank_level_forecast two_forecasts)" unfolding rows by simp
  have outs: "map Predicted_Outflow (filter (\<lambda>r. fc_Date r = 5) two_forecasts)
                = [Num 100, Num 200]"
    by (simp add: two_forecasts_def)
  have ins: "map Predicted_Inflow (filter (\<lambda>r. fc_Date r = 5) two_forecasts)
                = [Num 10, Num 20]"
    by (simp add: two_forecasts_def)
  from t have "\<forall>b \<in> set (bank_level_forecast two_forecasts).
        bf_Predicted_Outflow b
          = Num (sum_list (map (\<lambda>r. case Predicted_Outflow r of NaN \<Rightarrow> 0 | Num x \<Rightarrow> x)
                               (filter (\<lambda>r. fc_Date r = bf_Date b) two_forecasts)))
      \<and> bf_Predicted_Inflow b
          = Num (sum_list (map (\<lambda>r. case Predicted_Inflow r of NaN \<Rightarrow> 0 | Num x \<Rightarrow> x)
                               (filter (\<lambda>r. fc_Date r = bf_Date b) two_forecasts)))
      \<and> ((\<forall>r \<in> set two_forecasts. fc_Date r = bf_Date b \<longrightarrow> Predicted_Outflow r \<noteq> NaN) \<longrightarrow>
           bf_Predicted_Outflow b
             = exact_sum (map Predicted_Outflow
                            (filter (\<lambda>r. fc_Date r = bf_Date b) two_forecasts)))
      \<and> ((\<forall>r \<in> set two_forecasts. fc_Date r = bf_Date b \<longrightarrow> Predicted_Inflow r \<noteq> NaN) \<longrightarrow>
           bf_Predicted_Inflow b
             = exact_sum (map Predicted_Inflow
                            (filter (\<lambda>r. fc_Date r = bf_Date b) two_forecasts)))"
    by (elim conjE)
  from bspec [OF this b]
  have ex: "exact_sum (map Predicted_Outflow (filter (\<lambda>r. fc_Date r = 5) two_forecasts))
              = Num 300"
    and ex': "exact_sum (map Predicted_Inflow (filter (\<lambda>r. fc_Date r = 5) two_forecasts))
              = Num 30"
    by (simp_all add: two_forecasts_def)
  have afc: "account_forecasts single_row_ledger 1 1 0.7
               = [\<lparr>fc_Date = 1, fc_Account_ID = 7, Predicted_Inflow = Num 1000,
                   Predicted_Outflow = Num 800, Model = ''BASELINE''\<rparr>]"
    by (simp add: forecast_eval single_row_ledger_def)
  have run: "run_baseline_forecasting single_row_ledger 1 1 0.7
       = Inr (account_forecasts single_row_ledger 1 1 0.7,
              [\<lparr>bf_Date = 1, bf_Predicted_Inflow = Num 1000, bf_Predicted_Outflow = Num 800,
                bf_Model = ''BASELINE_BANK''\<rparr>])"
    using afc
    by (simp add: run_baseline_forecasting_def bank_level_forecast_def groupby_keys_def
          get_group_def nansum_def Let_def)
  show ?thesis
  proof (intro conjI)
    show "?b \<in> set (bank_level_forecast two_forecasts)" by (rule b)
    show "map Predicted_Outflow (filter (\<lambda>r. fc_Date r = 5) two_forecasts)
            = [Num 100, Num 200]" by (rule outs)
    show "exact_sum (map Predicted_Outflow (filter (\<lambda>r. fc_Date r = 5) two_forecasts))
            = Num 300" by (rule ex)
    show "exact_sum (map Predicted_Inflow (filter (\<lambda>r. fc_Date r = 5) two_forecasts))
            = Num 30" by (rule ex')
    show "(0 :: nat) < 1" by simp
    show "Inflow_INR (hd single_row_ledger) \<noteq> NaN" by (simp add: single_row_ledger_def)
    show "Outflow_INR (hd single_row_ledger) \<noteq> NaN" by (simp add: single_row_ledger_def)
    show "run_baseline_forecasting single_row_ledger 1 1 0.7
       = Inr (account_forecasts single_row_ledger 1 1 0.7,
              [\<lparr>bf_Date = 1, bf_Predicted_Inflow = Num 1000, bf_Predicted_Outflow = Num 800,
                bf_Model = ''BASELINE_BANK''\<rparr>])" by (rule run)
    show "exact_sum (map Predicted_Outflow (account_forecasts single_row_ledger 1 1 0.7))
            = Num 800"
      unfolding afc by (simp add: exact_sum_def)
    show "map fc_Date (account_forecasts single_row_ledger 1 1 0.7) = [1]"
      unfolding afc by simp
  qed
qed

section \<open>C6: predictions are never negative\<close>

text \<open>
  A ledger read from a file with an empty outflow cell holds NaN there. With the default
  rolling window of 14 days the window of that account has no number, its mean is NaN,
  the blended prediction is NaN, and \<open>max(NaN, 0)\<close> keeps the NaN: the predicted outflow
  is NaN, which is not a value at or above zero. A rolling window of zero days gives NaN
  in the same way, for a ledger without any missing cell.
\<close>

theorem forecast_nan_counterexample:
  "map Predicted_Outflow (account_forecasts missing_cell_ledger 1 14 0.7) = [NaN]
   \<and> map Predicted_Outflow (account_forecasts single_row_ledger 1 0 0.7) = [NaN]
   \<and> \<not> fle (Num 0) NaN"
  by (simp add: forecast_eval missing_cell_ledger_def single_row_ledger_def)

text \<open>
  Claim C6, amended. No prediction is negative: on every row of the account-level
  forecast, for every ledger and every rolling window, Predicted_Inflow and
  Predicted_Outflow are each either NaN or a number at or above zero (a negative blend is
  clamped to zero when the row is built). With a rolling window of at least one day the
  Predicted_Inflow of a row is a number at or above zero when no inflow cell of the row's
  account is NaN, and likewise the Predicted_Outflow when no outflow cell of the account
  is NaN. On every row of the bank-level forecast both values are numbers at or above
  zero. With a rolling window of zero days every account-level prediction is NaN.
\<close>

theorem forecast_nonnegative:
  "(\<forall>r \<in> set (account_forecasts df h w al).
       (Predicted_Inflow r = NaN \<or> (\<exists>x. Predicted_Inflow r = Num x \<and> 0 \<le> x))
     \<and> (Predicted_Outflow r = NaN \<or> (\<exists>y. Predicted_Outflow r = Num y \<and> 0 \<le> y)))
   \<and> (0 < w \<longrightarrow>
        (\<forall>r \<in> set (account_forecasts df h w al).
           ((\<forall>c \<in> set df. Account_ID c = fc_Account_ID r \<longrightarrow> Inflow_INR c \<noteq> NaN)
              \<longrightarrow> (\<exists>x. Predicted_Inflow r = Num x \<and> 0 \<le> x))
         \<and> ((\<forall>c \<in> set df. Account_ID c = fc_Account_ID r \<longrightarrow> Outflow_INR c \<noteq> NaN)
              \<longrightarrow> (\<exists>y. Predicted_Outflow r = Num y \<and> 0 \<le> y))))
   \<and> (\<forall>b \<in> set (bank_level_forecast (account_forecasts df h w al)).
         (\<exists>x. bf_Predicted_Inflow b = Num x \<and> 0 \<le> x)
       \<and> (\<exists>y. bf_Predicted_Outflow b = Num y \<and> 0 \<le> y))
   \<and> (\<forall>r \<in> set (account_forecasts df h 0 al).
         Predicted_Inflow r = NaN \<and> Predicted_Outflow r = NaN)
   \<and> (\<forall>afc bfc. run_baseline_forecasting df h w al = Inr (afc, bfc)
        \<longrightarrow> afc = account_forecasts df h w al \<and> bfc = bank_level_forecast afc)"
proof (intro conjI impI ballI allI)
  fix r assume "r \<in> set (account_forecasts df h w al)"
  then show "Predicted_Inflow r = NaN \<or> (\<exists>x. Predicted_Inflow r = Num x \<and> 0 \<le> x)"
    and "Predicted_Outflow r = NaN \<or> (\<exists>y. Predicted_Outflow r = Num y \<and> 0 \<le> y)"
    using account_forecasts_cases [of r df h w al] by simp_all
next
  fix r
  assume "0 < w" and "r \<in> set (account_forecasts df h w al)"
    and "\<forall>c \<in> set df. Account_ID c = fc_Account_ID r \<longrightarrow> Inflow_INR c \<noteq> NaN"
  then show "\<exists>x. Predicted_Inflow r = Num x \<and> 0 \<le> x"
    by (rule account_forecasts_inflow_number)
next
  fix r
  assume "0 < w" and "r \<in> set (account_forecasts df h w al)"
    and "\<forall>c \<in> set df. Account_ID c = fc_Account_ID r \<longrightarrow> Outflow_INR c \<noteq> NaN"
  then show "\<exists>y. Predicted_Outflow r = Num y \<and> 0 \<le> y"
    by (rule account_forecasts_outflow_number)
next
  fix b :: bank_forecast
  let ?afc = "account_forecasts df h w al"
  assume b: "b \<in> set (bank_level_forecast ?afc)"
  have "\<exists>x. nansum (map Predicted_Inflow (filter (\<lambda>r. fc_Date r = bf_Date b) ?afc)) = Num x
          \<and> 0 \<le> x"
    by (rule nansum_nonneg) (use account_forecasts_cases [of _ df h w al] in auto)
  then show "\<exists>x. bf_Predicted_Inflow b = Num x \<and> 0 \<le> x"
    using bank_level_forecast_rows [OF b] by simp
  have "\<exists>x. nansum (map Predicted_Outflow (filter (\<lambda>r. fc_Date r = bf_Date b) ?afc)) = Num x
          \<and> 0 \<le> x"
    by (rule nansum_nonneg) (use account_forecasts_cases [of _ df h w al] in auto)
  then show "\<exists>y. bf_Predicted_Outflow b = Num y \<and> 0 \<le> y"
    using bank_level_forecast_rows [OF b] by simp
next
  fix r assume r: "r \<in> set (account_forecasts df h 0 al)"
  from account_forecasts_rows [OF r] obtain acc g d
    where eq: "r = forecast_row acc g 0 al d" by blast
  show "Predicted_Inflow r = NaN" unfolding eq by (simp add: forecast_row_window_zero)
  show "Predicted_Outflow r = NaN" unfolding eq by (simp add: forecast_row_window_zero)
next
  fix afc bfc assume "run_baseline_forecasting df h w al = Inr (afc, bfc)"
  then show "afc = account_forecasts df h w al" and "bfc = bank_level_forecast afc"
    by (auto simp: run_baseline_forecasting_def Let_def split: if_splits)
qed

theorem forecast_nonnegative_witness:
  "(0 :: nat) < 1
   \<and> account_forecasts negative_ledger 1 1 0.7
       = [\<lparr>fc_Date = 1, fc_Account_ID = 7, Predicted_Inflow = Num 0,
           Predicted_Outflow = Num 0, Model = ''BASELINE''\<rparr>]
   \<and> Inflow_INR (hd negative_ledger) \<noteq> NaN \<and> Outflow_INR (hd negative_ledger) \<noteq> NaN
   \<and> bank_level_forecast (account_forecasts negative_ledger 1 1 0.7)
       = [\<lparr>bf_Date = 1, bf_Predicted_Inflow = Num 0, bf_Predicted_Outflow = Num 0,
           bf_Model = ''BASELINE_BANK''\<rparr>]
   \<and> account_forecasts negative_ledger 1 0 0.7
       = [\<lparr>fc_Date = 1, fc_Account_ID = 7, Predicted_Inflow = NaN,
           Predicted_Outflow = NaN, Model = ''BASELINE''\<rparr>]
   \<and> account_forecasts missing_cell_ledger 1 1 0.7
       = [\<lparr>fc_Date = 1, fc_Account_ID = 7, Predicted_Inflow = Num 1000,
           Predicted_Outflow = NaN, Model = ''BASELINE''\<rparr>]
   \<and> bank_level_forecast (account_forecasts missing_cell_ledger 1 1 0.7)
       = [\<lparr>bf_Date = 1, bf_Predicted_Inflow = Num 1000, bf_Predicted_Outflow = Num 0,
           bf_Model = ''BASELINE_BANK''\<rparr>]
   \<and> run_baseline_forecasting negative_ledger 1 1 0.7
       = Inr (account_forecasts negative_ledger 1 1 0.7,
              bank_level_forecast (account_forecasts negative_ledger 1 1 0.7))"
proof -
  note t = forecast_nonnegative [of negative_ledger 1 1 "0.7"]
  note t' = forecast_nonnegative [of missing_cell_ledger 1 1 "0.7"]
  have afc: "account_forecasts negative_ledger 1 1 0.7
       = [\<lparr>fc_Date = 1, fc_Account_ID = 7, Predicted_Inflow = Num 0,
           Predicted_Outflow = Num 0, Model = ''BASELINE''\<rparr>]"
    by (simp add: forecast_eval negative_ledger_def)
  have afc0: "account_forecasts negative_ledger 1 0 0.7
       = [\<lparr>fc_Date = 1, fc_Account_ID = 7, Predicted_Inflow = NaN,
           Predicted_Outflow = NaN, Model = ''BASELINE''\<rparr>]"
    by (simp add: forecast_eval negative_ledger_def)
  have afcm: "account_forecasts missing_cell_ledger 1 1 0.7
       = [\<lparr>fc_Date = 1, fc_Account_ID = 7, Predicted_Inflow = Num 1000,
           Predicted_Outflow = NaN, Model = ''BASELINE''\<rparr>]"
    by (simp add: forecast_eval missing_cell_ledger_def)
  have cells: "Inflow_INR (hd negative_ledger) \<noteq> NaN \<and> Outflow_INR (hd negative_ledger) \<noteq> NaN"
    by (simp add: negative_ledger_def)
  have bank: "bank_level_forecast (account_forecasts negative_ledger 1 1 0.7)
       = [\<lparr>bf_Date = 1, bf_Predicted_Inflow = Num 0, bf_Predicted_Outflow = Num 0,
           bf_Model = ''BASELINE_BANK''\<rparr>]"
    unfolding afc
    by (simp add: bank_level_forecast_def groupby_keys_def get_group_def nansum_def Let_def)
  have bankm: "bank_level_forecast (account_forecasts missing_cell_ledger 1 1 0.7)
       = [\<lparr>bf_Date = 1, bf_Predicted_Inflow = Num 1000, bf_Predicted_Outflow = Num 0,
           bf_Model = ''BASELINE_BANK''\<rparr>]"
    unfolding afcm
    by (simp add: bank_level_forecast_def groupby_keys_def get_group_def nansum_def Let_def)
  have run: "run_baseline_forecasting negative_ledger 1 1 0.7
       = Inr (account_forecasts negative_ledger 1 1 0.7,
              bank_level_forecast (account_forecasts negative_ledger 1 1 0.7))"
    using afc by (simp add: run_baseline_forecasting_def Let_def)
  from t t' afc afc0 afcm cells bank bankm run show ?thesis by simp
qed

section \<open>C4: default parameter values\<close>

text \<open>
  The signature of \<open>run_baseline_forecasting\<close> has \<open>horizon=14\<close>: a run with default
  settings on the account with fourteen identical daily rows returns 14 forecast rows,
  not 60.
\<close>

theorem default_horizon_counterexample:
  "horizon_default = 14
   \<and> \<not> isl (run_baseline_forecasting_default scenario_ledger)
   \<and> length (fst (projr (run_baseline_forecasting_default scenario_ledger))) = 14"
proof -
  have "run_baseline_forecasting_default scenario_ledger
          = Inr (account_forecasts scenario_ledger 14 14 0.7,
                 bank_level_forecast (account_forecasts scenario_ledger 14 14 0.7))"
    unfolding run_baseline_forecasting_default_def horizon_default_def
      rolling_window_default_def alpha_default_def
    by (rule run_baseline_forecasting_returns [OF scenario_ledger_nonempty]) simp
  then show ?thesis
    by (simp add: horizon_default_def
          account_forecasts_single_length [OF scenario_ledger_accounts])
qed

text \<open>
  Claim C4, amended. The entry points carry these defaults: horizon 14, rolling window
  14, smoothing weight 0.7 (\<open>run_baseline_forecasting\<close>), stress percentage 0.15 and
  confidence multiplier 1.65 (\<open>run_cash_requirement_engine\<close>), structural quantile 0.25
  (\<open>structural_cash_estimation\<close>). A forecast run with default settings on a non-empty
  ledger returns 14 future dates per account; the dashboard passes \<open>horizon=60\<close>
  explicitly and gets 60 future dates per account.
\<close>

theorem default_parameters:
  "run_baseline_forecasting_default df = run_baseline_forecasting df 14 14 0.7
   \<and> app_forecast df = run_baseline_forecasting df 60 14 0.7
   \<and> run_cash_requirement_engine_default fcs ms ss bs
       = run_cash_requirement_engine fcs ms ss bs 0.15 1.65
   \<and> structural_cash_estimation_default df = structural_cash_estimation df 0.25
   \<and> (df \<noteq> [] \<longrightarrow>
        (\<exists>afc bfc. run_baseline_forecasting_default df = Inr (afc, bfc)
           \<and> (\<forall>a \<in> Account_ID ` set df.
                 map fc_Date (filter (\<lambda>r. fc_Account_ID r = a) afc)
                   = map (\<lambda>i. Max (set (map Date (get_group Account_ID df a))) + 1 + int i)
                         [0..<14]))
      \<and> (\<exists>afc bfc. app_forecast df = Inr (afc, bfc)
           \<and> (\<forall>a \<in> Account_ID ` set df.
                 map fc_Date (filter (\<lambda>r. fc_Account_ID r = a) afc)
                   = map (\<lambda>i. Max (set (map Date (get_group Account_ID df a))) + 1 + int i)
                         [0..<60])))"
proof (intro conjI impI)
  show d: "run_baseline_forecasting_default df = run_baseline_forecasting df 14 14 0.7"
    by (simp add: run_baseline_forecasting_default_def horizon_default_def
          rolling_window_default_def alpha_default_def)
  show a: "app_forecast df = run_baseline_forecasting df 60 14 0.7"
    by (simp add: app_forecast_def rolling_window_default_def alpha_default_def)
  show "run_cash_requirement_engine_default fcs ms ss bs
       = run_cash_requirement_engine fcs ms ss bs 0.15 1.65"
    by (simp add: run_cash_requirement_engine_default_def stress_pct_default_def
          confidence_factor_default_def)
  show "structural_cash_estimation_default df = structural_cash_estimation df 0.25"
    by (simp add: structural_cash_estimation_default_def quantile_default_def)
  have dates: "\<forall>a \<in> Account_ID ` set df.
                 map fc_Date (filter (\<lambda>r. fc_Account_ID r = a) (account_forecasts df h 14 0.7))
                   = map (\<lambda>i. Max (set (map Date (get_group Account_ID df a))) + 1 + int i)
                         [0..<h]" for h
    by (simp add: account_forecasts_dates date_range_def del: set_map)
  assume ne: "df \<noteq> []"
  have "run_baseline_forecasting df 14 14 0.7
          = Inr (account_forecasts df 14 14 0.7,
                 bank_level_forecast (account_forecasts df 14 14 0.7))"
    by (rule run_baseline_forecasting_returns [OF ne]) simp
  then show "\<exists>afc bfc. run_baseline_forecasting_default df = Inr (afc, bfc)
           \<and> (\<forall>a \<in> Account_ID ` set df.
                 map fc_Date (filter (\<lambda>r. fc_Account_ID r = a) afc)
                   = map (\<lambda>i. Max (set (map Date (get_group Account_ID df a))) + 1 + int i)
                         [0..<14])"
    unfolding d using dates [of 14] by blast
  have "run_baseline_forecasting df 60 14 0.7
          = Inr (account_forecasts df 60 14 0.7,
                 bank_level_forecast (account_forecasts df 60 14 0.7))"
    by (rule run_baseline_forecasting_returns [OF ne]) simp
  then show "\<exists>afc bfc. app_forecast df = Inr (afc, bfc)
           \<and> (\<forall>a \<in> Account_ID ` set df.
                 map fc_Date (filter (\<lambda>r. fc_Account_ID r = a) afc)
                   = map (\<lambda>i. Max (set (map Date (get_group Account_ID df a))) + 1 + int i)
                         [0..<60])"
    unfolding a using dates [of 60] by blast
qed

theorem default_parameters_witness:
  "scenario_ledger \<noteq> []
   \<and> run_baseline_forecasting_default scenario_ledger
       = Inr (account_forecasts scenario_ledger 14 14 0.7,
              bank_level_forecast (account_forecasts scenario_ledger 14 14 0.7))
   \<and> map fc_Date (account_forecasts scenario_ledger 14 14 0.7)
       = map (\<lambda>i. 14 + int i) [0..<14]
   \<and> app_forecast scenario_ledger
       = Inr (account_forecasts scenario_ledger 60 14 0.7,
              bank_level_forecast (account_forecasts scenario_ledger 60 14 0.7))
   \<and> map fc_Date (account_forecasts scenario_ledger 60 14 0.7)
       = map (\<lambda>i. 14 + int i) [0..<60]"
proof -
  note t = default_parameters [of scenario_ledger "[]" "[]" "[]" "[]"]
  have one: "1 \<in> Account_ID ` set scenario_ledger"
    unfolding scenario_ledger_accounts by simp
  have whole: "filter (\<lambda>r. fc_Account_ID r = 1) (account_forecasts scenario_ledger h 14 0.7)
                 = account_forecasts scenario_ledger h 14 0.7" for h
    by (rule account_forecasts_single_account [OF scenario_ledger_accounts])
  have ret: "run_baseline_forecasting scenario_ledger h 14 0.7
          = Inr (account_forecasts scenario_ledger h 14 0.7,
                 bank_level_forecast (account_forecasts scenario_ledger h 14 0.7))"
    if "0 < h" for h
    by (rule run_baseline_forecasting_returns [OF scenario_ledger_nonempty that])
  from t have d: "run_baseline_forecasting_default scenario_ledger
                    = run_baseline_forecasting scenario_ledger 14 14 0.7"
    and a: "app_forecast scenario_ledger = run_baseline_forecasting scenario_ledger 60 14 0.7"
    by blast+
  from t scenario_ledger_nonempty obtain afc bfc
    where r14: "run_baseline_forecasting_default scenario_ledger = Inr (afc, bfc)"
      and d14: "\<forall>a \<in> Account_ID ` set scenario_ledger.
                 map fc_Date (filter (\<lambda>r. fc_Account_ID r = a) afc)
                   = map (\<lambda>i. Max (set (map Date (get_group Account_ID scenario_ledger a)))
                               + 1 + int i) [0..<14]"
    by blast
  have afc: "afc = account_forecasts scenario_ledger 14 14 0.7"
    using r14 unfolding d by (simp add: ret)
  from t scenario_ledger_nonempty obtain afc' bfc'
    where r60: "app_forecast scenario_ledger = Inr (afc', bfc')"
      and d60: "\<forall>a \<in> Account_ID ` set scenario_ledger.
                 map fc_Date (filter (\<lambda>r. fc_Account_ID r = a) afc')
                   = map (\<lambda>i. Max (set (map Date (get_group Account_ID scenario_ledger a)))
                               + 1 + int i) [0..<60]"
    by blast
  have afc': "afc' = account_forecasts scenario_ledger 60 14 0.7"
    using r60 unfolding a by (simp add: ret)
  show ?thesis
  proof (intro conjI)
    show "scenario_ledger \<noteq> []" by (rule scenario_ledger_nonempty)
    show "run_baseline_forecasting_default scenario_ledger
       = Inr (account_forecasts scenario_ledger 14 14 0.7,
              bank_level_forecast (account_forecasts scenario_ledger 14 14 0.7))"
      unfolding d by (rule ret) simp
    show "map fc_Date (account_forecasts scenario_ledger 14 14 0.7)
       = map (\<lambda>i. 14 + int i) [0..<14]"
      using bspec [OF d14 one] unfolding afc whole scenario_last_date by simp
    show "app_forecast scenario_ledger
       = Inr (account_forecasts scenario_ledger 60 14 0.7,
              bank_level_forecast (account_forecasts scenario_ledger 60 14 0.7))"
      unfolding a by (rule ret) simp
    show "map fc_Date (account_forecasts scenario_ledger 60 14 0.7)
       = map (\<lambda>i. 14 + int i) [0..<60]"
      using bspec [OF d60 one] unfolding afc' whole scenario_last_date by simp
  qed
qed

section \<open>C1: buffers, required cash and funding gap\<close>

lemma scenario_engine_rows:
  assumes "0 < w"
  shows "fst (run_cash_requirement_engine (account_forecasts scenario_ledger h w al)
                (account_behavior_metrics scenario_ledger)
                [\<lparr>sc_Account_ID = 1, Structural_Inflow = Num 1000, Volatile_Inflow = Num 0,
                  Structural_Ratio = Num 1\<rparr>]
                scenario_balances s z)
           = map (\<lambda>f. requirement_row s z (f, Num 0, Num 1000, Num 5000))
                 (account_forecasts scenario_ledger h w al)"
proof -
  have v: "merge_left am_Account_ID Outflow_Volatility
             (account_behavior_metrics scenario_ledger) 1 = [Num 0]"
    unfolding scenario_metrics
    using scenario_volatility by (simp add: merge_left_def metrics_row_fields)
  have st: "merge_left sc_Account_ID Structural_Inflow
             [\<lparr>sc_Account_ID = 1, Structural_Inflow = Num 1000, Volatile_Inflow = Num 0,
               Structural_Ratio = Num 1\<rparr>] (1::nat) = [Num 1000]"
    by (simp add: merge_left_def)
  have b: "merge_left bl_Account_ID bl_Balance_INR scenario_balances 1 = [Num 5000]"
    by (simp add: merge_left_def scenario_balances_def)
  have "merge_inputs (account_forecasts scenario_ledger h w al)
          (account_behavior_metrics scenario_ledger)
          [\<lparr>sc_Account_ID = 1, Structural_Inflow = Num 1000, Volatile_Inflow = Num 0,
            Structural_Ratio = Num 1\<rparr>]
          scenario_balances
        = map (\<lambda>f. (f, Num 0, Num 1000, Num 5000)) (account_forecasts scenario_ledger h w al)"
  proof (rule merge_inputs_single_match, rule ballI)
    fix f assume "f \<in> set (account_forecasts scenario_ledger h w al)"
    then have "fc_Account_ID f = 1" using scenario_forecast_rows [OF assms] by blast
    then show "merge_left am_Account_ID Outflow_Volatility
                 (account_behavior_metrics scenario_ledger) (fc_Account_ID f) = [Num 0]
      \<and> merge_left sc_Account_ID Structural_Inflow
           [\<lparr>sc_Account_ID = 1, Structural_Inflow = Num 1000, Volatile_Inflow = Num 0,
             Structural_Ratio = Num 1\<rparr>] (fc_Account_ID f) = [Num 1000]
      \<and> merge_left bl_Account_ID bl_Balance_INR scenario_balances (fc_Account_ID f)
          = [Num 5000]"
      using v st b by simp
  qed
  then show ?thesis unfolding engine_rows by (simp add: o_def)
qed

lemma scenario_requirement_row:
  assumes "Predicted_Outflow f = Num 800"
  shows "Safety_Buffer (requirement_row 0.15 1.65 (f, Num 0, Num 1000, Num 5000)) = Num 0"
    and "Stress_Buffer (requirement_row 0.15 1.65 (f, Num 0, Num 1000, Num 5000)) = Num 120"
    and "Reliable_Inflow (requirement_row 0.15 1.65 (f, Num 0, Num 1000, Num 5000)) = Num 1000"
    and "Required_Cash (requirement_row 0.15 1.65 (f, Num 0, Num 1000, Num 5000)) = Num (- 80)"
    and "Funding_Gap (requirement_row 0.15 1.65 (f, Num 0, Num 1000, Num 5000)) = Num (- 5080)"
    and "Idle_Cash (requirement_row 0.15 1.65 (f, Num 0, Num 1000, Num 5000)) = Num 5080"
    and "Action (requirement_row 0.15 1.65 (f, Num 0, Num 1000, Num 5000)) = ''INVEST_SURPLUS''"
  using assms
  by (simp_all add: requirement_row_def Let_def fillna_def np_select2_def fgt_def)

lemma requirement_row_numbers:
  "\<exists>v st b. rq_Outflow_Volatility (requirement_row s z row) = Num v
     \<and> rq_Structural_Inflow (requirement_row s z row) = Num st
     \<and> rq_Balance_INR (requirement_row s z row) = Num b
     \<and> Safety_Buffer (requirement_row s z row) = Num (v * z)
     \<and> Reliable_Inflow (requirement_row s z row) = Num st
     \<and> (\<forall>p. rq_Predicted_Outflow (requirement_row s z row) = Num p \<longrightarrow>
            Stress_Buffer (requirement_row s z row) = Num (p * s)
          \<and> Required_Cash (requirement_row s z row) = Num (p + v * z + p * s - st)
          \<and> Funding_Gap (requirement_row s z row) = Num (p + v * z + p * s - st - b))"
proof -
  obtain f v0 st0 b0 where row: "row = (f, v0, st0, b0)" by (cases row) auto
  obtain v where v: "fillna 0 v0 = Num v" using fillna_Num by blast
  obtain st where st: "fillna 0 st0 = Num st" using fillna_Num by blast
  obtain b where b: "fillna 0 b0 = Num b" using fillna_Num by blast
  show ?thesis
    unfolding row
    by (rule exI [of _ v], rule exI [of _ st], rule exI [of _ b])
       (simp add: requirement_row_def Let_def v st b)
qed

text \<open>
  Claim C1. On every row that \<open>run_cash_requirement_engine\<close> produces, after the joins
  and the zero-fill: Safety_Buffer = Outflow_Volatility * z, Stress_Buffer =
  Predicted_Outflow * s, Reliable_Inflow = Structural_Inflow, Required_Cash =
  Predicted_Outflow + Safety_Buffer + Stress_Buffer - Reliable_Inflow, and Funding_Gap =
  Required_Cash - Balance, where the three filled columns are numbers. For the account
  with fourteen identical rows (inflow 1000, outflow 800, balance 5000), forecast with any
  rolling window of at least one day, its own behavior metrics and its structural
  estimate at the quantile 0.25, a stress percentage of 0.15 and a confidence factor of
  1.65, the engine produces one row per forecast row, each with Safety_Buffer 0,
  Stress_Buffer 120, Required_Cash -80 and Funding_Gap -5080 (so INVEST_SURPLUS with an
  Idle_Cash of 5080).
\<close>

theorem engine_formulas:
  "(\<forall>r \<in> set (fst (run_cash_requirement_engine fcs ms ss bs s z)).
      Safety_Buffer r = fmul (rq_Outflow_Volatility r) (Num z)
    \<and> Stress_Buffer r = fmul (rq_Predicted_Outflow r) (Num s)
    \<and> Reliable_Inflow r = rq_Structural_Inflow r
    \<and> Required_Cash r
        = fsub (fadd (fadd (rq_Predicted_Outflow r) (Safety_Buffer r)) (Stress_Buffer r))
               (Reliable_Inflow r)
    \<and> Funding_Gap r = fsub (Required_Cash r) (rq_Balance_INR r)
    \<and> (\<exists>v st b. rq_Outflow_Volatility r = Num v
          \<and> rq_Structural_Inflow r = Num st
          \<and> rq_Balance_INR r = Num b
          \<and> Safety_Buffer r = Num (v * z)
          \<and> Reliable_Inflow r = Num st
          \<and> (\<forall>p. rq_Predicted_Outflow r = Num p \<longrightarrow>
                 Stress_Buffer r = Num (p * s)
               \<and> Required_Cash r = Num (p + v * z + p * s - st)
               \<and> Funding_Gap r = Num (p + v * z + p * s - st - b))))
   \<and> (0 < w \<longrightarrow>
        (\<exists>structural.
            structural_cash_estimation scenario_ledger 0.25 = Inr structural
          \<and> length (fst (run_cash_requirement_engine
                 (account_forecasts scenario_ledger h w al)
                 (account_behavior_metrics scenario_ledger) structural scenario_balances
                 0.15 1.65)) = h
          \<and> (\<forall>r \<in> set (fst (run_cash_requirement_engine
                 (account_forecasts scenario_ledger h w al)
                 (account_behavior_metrics scenario_ledger) structural scenario_balances
                 0.15 1.65)).
                 rq_Predicted_Outflow r = Num 800
               \<and> Safety_Buffer r = Num 0
               \<and> Stress_Buffer r = Num 120
               \<and> Reliable_Inflow r = Num 1000
               \<and> Required_Cash r = Num (- 80)
               \<and> Funding_Gap r = Num (- 5080)
               \<and> Idle_Cash r = Num 5080
               \<and> Action r = ''INVEST_SURPLUS'')))"
proof (intro conjI impI)
  show "\<forall>r \<in> set (fst (run_cash_requirement_engine fcs ms ss bs s z)).
      Safety_Buffer r = fmul (rq_Outflow_Volatility r) (Num z)
    \<and> Stress_Buffer r = fmul (rq_Predicted_Outflow r) (Num s)
    \<and> Reliable_Inflow r = rq_Structural_Inflow r
    \<and> Required_Cash r
        = fsub (fadd (fadd (rq_Predicted_Outflow r) (Safety_Buffer r)) (Stress_Buffer r))
               (Reliable_Inflow r)
    \<and> Funding_Gap r = fsub (Required_Cash r) (rq_Balance_INR r)
    \<and> (\<exists>v st b. rq_Outflow_Volatility r = Num v
          \<and> rq_Structural_Inflow r = Num st
          \<and> rq_Balance_INR r = Num b
          \<and> Safety_Buffer r = Num (v * z)
          \<and> Reliable_Inflow r = Num st
          \<and> (\<forall>p. rq_Predicted_Outflow r = Num p \<longrightarrow>
                 Stress_Buffer r = Num (p * s)
               \<and> Required_Cash r = Num (p + v * z + p * s - st)
               \<and> Funding_Gap r = Num (p + v * z + p * s - st - b)))"
  proof
    fix r assume "r \<in> set (fst (run_cash_requirement_engine fcs ms ss bs s z))"
    then obtain row where r: "r = requirement_row s z row"
      unfolding engine_rows by auto
    show "Safety_Buffer r = fmul (rq_Outflow_Volatility r) (Num z)
    \<and> Stress_Buffer r = fmul (rq_Predicted_Outflow r) (Num s)
    \<and> Reliable_Inflow r = rq_Structural_Inflow r
    \<and> Required_Cash r
        = fsub (fadd (fadd (rq_Predicted_Outflow r) (Safety_Buffer r)) (Stress_Buffer r))
               (Reliable_Inflow r)
    \<and> Funding_Gap r = fsub (Required_Cash r) (rq_Balance_INR r)
    \<and> (\<exists>v st b. rq_Outflow_Volatility r = Num v
          \<and> rq_Structural_Inflow r = Num st
          \<and> rq_Balance_INR r = Num b
          \<and> Safety_Buffer r = Num (v * z)
          \<and> Reliable_Inflow r = Num st
          \<and> (\<forall>p. rq_Predicted_Outflow r = Num p \<longrightarrow>
                 Stress_Buffer r = Num (p * s)
               \<and> Required_Cash r = Num (p + v * z + p * s - st)
               \<and> Funding_Gap r = Num (p + v * z + p * s - st - b)))"
      unfolding r
    proof (intro conjI)
      show "Safety_Buffer (requirement_row s z row)
              = fmul (rq_Outflow_Volatility (requirement_row s z row)) (Num z)"
        by (rule requirement_row_formulas)
      show "Stress_Buffer (requirement_row s z row)
              = fmul (rq_Predicted_Outflow (requirement_row s z row)) (Num s)"
        by (rule requirement_row_formulas)
      show "Reliable_Inflow (requirement_row s z row)
              = rq_Structural_Inflow (requirement_row s z row)"
        by (rule requirement_row_formulas)
      show "Required_Cash (requirement_row s z row)
              = fsub (fadd (fadd (rq_Predicted_Outflow (requirement_row s z row))
                               (Safety_Buffer (requirement_row s z row)))
                         (Stress_Buffer (requirement_row s z row)))
                   (Reliable_Inflow (requirement_row s z row))"
        by (rule requirement_row_formulas)
      show "Funding_Gap (requirement_row s z row)
              = fsub (Required_Cash (requirement_row s z row))
                     (rq_Balance_INR (requirement_row s z row))"
        by (rule requirement_row_formulas)
      show "\<exists>v st b. rq_Outflow_Volatility (requirement_row s z row) = Num v
          \<and> rq_Structural_Inflow (requirement_row s z row) = Num st
          \<and> rq_Balance_INR (requirement_row s z row) = Num b
          \<and> Safety_Buffer (requirement_row s z row) = Num (v * z)
          \<and> Reliable_Inflow (requirement_row s z row) = Num st
          \<and> (\<forall>p. rq_Predicted_Outflow (requirement_row s z row) = Num p \<longrightarrow>
                 Stress_Buffer (requirement_row s z row) = Num (p * s)
               \<and> Required_Cash (requirement_row s z row) = Num (p + v * z + p * s - st)
               \<and> Funding_Gap (requirement_row s z row)
                   = Num (p + v * z + p * s - st - b))"
        by (rule requirement_row_numbers)
    qed
  qed
next
  assume w: "0 < w"
  let ?st = "[\<lparr>sc_Account_ID = 1::nat, Structural_Inflow = Num 1000, Volatile_Inflow = Num 0,
               Structural_Ratio = Num 1\<rparr>]"
  let ?rows = "fst (run_cash_requirement_engine
                 (account_forecasts scenario_ledger h w al)
                 (account_behavior_metrics scenario_ledger) ?st scenario_balances
                 0.15 1.65)"
  have rows: "?rows = map (\<lambda>f. requirement_row 0.15 1.65 (f, Num 0, Num 1000, Num 5000))
                          (account_forecasts scenario_ledger h w al)"
    by (rule scenario_engine_rows [OF w])
  have len: "length ?rows = h"
    unfolding rows
    by (simp add: account_forecasts_single_length [OF scenario_ledger_accounts])
  have vals: "\<forall>r \<in> set ?rows.
                 rq_Predicted_Outflow r = Num 800
               \<and> Safety_Buffer r = Num 0
               \<and> Stress_Buffer r = Num 120
               \<and> Reliable_Inflow r = Num 1000
               \<and> Required_Cash r = Num (- 80)
               \<and> Funding_Gap r = Num (- 5080)
               \<and> Idle_Cash r = Num 5080
               \<and> Action r = ''INVEST_SURPLUS''"
  proof
    fix r assume "r \<in> set ?rows"
    then obtain f where f: "f \<in> set (account_forecasts scenario_ledger h w al)"
      and r: "r = requirement_row 0.15 1.65 (f, Num 0, Num 1000, Num 5000)"
      unfolding rows by auto
    have po: "Predicted_Outflow f = Num 800"
      using scenario_forecast_rows [OF w f] by simp
    show "rq_Predicted_Outflow r = Num 800
               \<and> Safety_Buffer r = Num 0
               \<and> Stress_Buffer r = Num 120
               \<and> Reliable_Inflow r = Num 1000
               \<and> Required_Cash r = Num (- 80)
               \<and> Funding_Gap r = Num (- 5080)
               \<and> Idle_Cash r = Num 5080
               \<and> Action r = ''INVEST_SURPLUS''"
      unfolding r
      by (intro conjI)
         (simp add: requirement_row_forecast po, (rule scenario_requirement_row [OF po])+)
  qed
  show "\<exists>structural.
            structural_cash_estimation scenario_ledger 0.25 = Inr structural
          \<and> length (fst (run_cash_requirement_engine
                 (account_forecasts scenario_ledger h w al)
                 (account_behavior_metrics scenario_ledger) structural scenario_balances
                 0.15 1.65)) = h
          \<and> (\<forall>r \<in> set (fst (run_cash_requirement_engine
                 (account_forecasts scenario_ledger h w al)
                 (account_behavior_metrics scenario_ledger) structural scenario_balances
                 0.15 1.65)).
                 rq_Predicted_Outflow r = Num 800
               \<and> Safety_Buffer r = Num 0
               \<and> Stress_Buffer r = Num 120
               \<and> Reliable_Inflow r = Num 1000
               \<and> Required_Cash r = Num (- 80)
               \<and> Funding_Gap r = Num (- 5080)
               \<and> Idle_Cash r = Num 5080
               \<and> Action r = ''INVEST_SURPLUS'')"
    by (rule exI [of _ ?st]) (intro conjI, rule scenario_structural, rule len, rule vals)
qed

theorem engine_formulas_witness:
  "(0 :: nat) < 14
   \<and> structural_cash_estimation scenario_ledger 0.25
       = Inr [\<lparr>sc_Account_ID = 1, Structural_Inflow = Num 1000, Volatile_Inflow = Num 0,
                Structural_Ratio = Num 1\<rparr>]
   \<and> length (fst (run_cash_requirement_engine (account_forecasts scenario_ledger 60 14 0.7)
         (account_behavior_metrics scenario_ledger)
         [\<lparr>sc_Account_ID = 1, Structural_Inflow = Num 1000, Volatile_Inflow = Num 0,
            Structural_Ratio = Num 1\<rparr>] scenario_balances 0.15 1.65)) = 60
   \<and> map (\<lambda>r. (Safety_Buffer r, Stress_Buffer r, Required_Cash r, Funding_Gap r))
       (fst (run_cash_requirement_engine (account_forecasts scenario_ledger 60 14 0.7)
         (account_behavior_metrics scenario_ledger)
         [\<lparr>sc_Account_ID = 1, Structural_Inflow = Num 1000, Volatile_Inflow = Num 0,
            Structural_Ratio = Num 1\<rparr>] scenario_balances 0.15 1.65))
     = replicate 60 (Num 0, Num 120, Num (- 80), Num (- 5080))
   \<and> map (\<lambda>r. (rq_Predicted_Outflow r, rq_Outflow_Volatility r, rq_Structural_Inflow r,
               rq_Balance_INR r, Safety_Buffer r, Stress_Buffer r, Required_Cash r,
               Funding_Gap r))
       (fst (run_cash_requirement_engine two_forecasts example_metrics example_structural
               example_balances 0.15 2))
     = [(Num 100, Num 10, Num 40, Num 30, Num 20, Num 15, Num 95, Num 65),
        (Num 200, Num 0, Num 0, Num 0, Num 0, Num 30, Num 230, Num 230),
        (Num 40, Num 10, Num 40, Num 30, Num 20, Num 6, Num 26, Num (- 4))]"
proof -
  let ?st = "[\<lparr>sc_Account_ID = 1::nat, Structural_Inflow = Num 1000, Volatile_Inflow = Num 0,
               Structural_Ratio = Num 1\<rparr>]"
  let ?rows = "fst (run_cash_requirement_engine (account_forecasts scenario_ledger 60 14 0.7)
         (account_behavior_metrics scenario_ledger) ?st scenario_balances 0.15 1.65)"
  note t = engine_formulas
    [where fcs = two_forecasts and ms = example_metrics and ss = example_structural
       and bs = example_balances and s = "0.15" and z = 2 and w = 14 and h = 60
       and al = "0.7"]
  have w: "(0 :: nat) < 14" by simp
  from t [THEN conjunct2, rule_format, OF w] obtain structural
    where st: "structural_cash_estimation scenario_ledger 0.25 = Inr structural"
      and len: "length (fst (run_cash_requirement_engine
                 (account_forecasts scenario_ledger 60 14 0.7)
                 (account_behavior_metrics scenario_ledger) structural scenario_balances
                 0.15 1.65)) = 60"
      and vals: "\<forall>r \<in> set (fst (run_cash_requirement_engine
                 (account_forecasts scenario_ledger 60 14 0.7)
                 (account_behavior_metrics scenario_ledger) structural scenario_balances
                 0.15 1.65)).
                 rq_Predicted_Outflow r = Num 800
               \<and> Safety_Buffer r = Num 0
               \<and> Stress_Buffer r = Num 120
               \<and> Reliable_Inflow r = Num 1000
               \<and> Required_Cash r = Num (- 80)
               \<and> Funding_Gap r = Num (- 5080)
               \<and> Idle_Cash r = Num 5080
               \<and> Action r = ''INVEST_SURPLUS''"
    by (elim exE conjE)
  have eq: "structural = ?st" using st scenario_structural by simp
  have len': "length ?rows = 60" using len unfolding eq .
  have "\<forall>x \<in> set (map (\<lambda>r. (Safety_Buffer r, Stress_Buffer r, Required_Cash r, Funding_Gap r))
                       ?rows). x = (Num 0, Num 120, Num (- 80), Num (- 5080))"
    using vals unfolding eq by simp
  from constant_list [OF this]
  have rep: "map (\<lambda>r. (Safety_Buffer r, Stress_Buffer r, Required_Cash r, Funding_Gap r)) ?rows
               = replicate 60 (Num 0, Num 120, Num (- 80), Num (- 5080))"
    using len' by simp
  have ex: "map (\<lambda>r. (rq_Predicted_Outflow r, rq_Outflow_Volatility r, rq_Structural_Inflow r,
               rq_Balance_INR r, Safety_Buffer r, Stress_Buffer r, Required_Cash r,
               Funding_Gap r))
       (fst (run_cash_requirement_engine two_forecasts example_metrics example_structural
               example_balances 0.15 2))
     = [(Num 100, Num 10, Num 40, Num 30, Num 20, Num 15, Num 95, Num 65),
        (Num 200, Num 0, Num 0, Num 0, Num 0, Num 30, Num 230, Num 230),
        (Num 40, Num 10, Num 40, Num 30, Num 20, Num 6, Num 26, Num (- 4))]"
    by (simp add: engine_eval two_forecasts_def example_metrics_def example_structural_def
          example_balances_def)
  show ?thesis
  proof (intro conjI)
    show "(0 :: nat) < 14" by simp
    show "structural_cash_estimation scenario_ledger 0.25 = Inr ?st"
      by (rule scenario_structural)
    show "length ?rows = 60" by (rule len')
    show "map (\<lambda>r. (Safety_Buffer r, Stress_Buffer r, Required_Cash r, Funding_Gap r)) ?rows
            = replicate 60 (Num 0, Num 120, Num (- 80), Num (- 5080))" by (rule rep)
    show "map (\<lambda>r. (rq_Predicted_Outflow r, rq_Outflow_Volatility r, rq_Structural_Inflow r,
               rq_Balance_INR r, Safety_Buffer r, Stress_Buffer r, Required_Cash r,
               Funding_Gap r))
       (fst (run_cash_requirement_engine two_forecasts example_metrics example_structural
               example_balances 0.15 2))
     = [(Num 100, Num 10, Num 40, Num 30, Num 20, Num 15, Num 95, Num 65),
        (Num 200, Num 0, Num 0, Num 0, Num 0, Num 30, Num 230, Num 230),
        (Num 40, Num 10, Num 40, Num 30, Num 20, Num 6, Num 26, Num (- 4))]" by (rule ex)
  qed
qed

end
